theory Spec2Isabelle
  imports Complex_Main "HOL-Library.Finite_Map"
begin

section \<open>Errors raised by the modelled code\<close>

text \<open>
  Every \<open>throw\<close> of the modelled sources is a constructor of \<open>error\<close>; a function that
  may throw returns \<open>error + 'a\<close> with \<open>Inl\<close> for the exception.
\<close>

datatype side = Left | Right

datatype error =
    CountTooHigh int
  | CountTooLow int
  | InvalidCompositeSpecs string
  | TypeError
  | NotSingle
  | CouldNotFindEntry side
  | CouldNotFindMatchingGraphEntry

section \<open>cutPasteUtils.ts: the modification count\<close>

text \<open>
  \<open>Count\<close> is the TypeScript type \<open>0 | 1 | 2 | 3\<close>; at run time it is a JavaScript number,
  modelled as an \<open>int\<close>. The union type is the predicate \<open>isCount\<close>.
\<close>

definition isCount :: "int \<Rightarrow> bool" where
  "isCount c = (c = 0 \<or> c = 1 \<or> c = 2 \<or> c = 3)"

definition inc :: "int \<Rightarrow> error + int" where
  "inc count = (if count = 3 then Inl (CountTooHigh count) else Inr (count + 1))"

definition dec :: "int \<Rightarrow> error + int" where
  "dec count = (if count = 0 then Inl (CountTooLow count) else Inr (count - 1))"

text \<open>Sequencing of two calls that may throw: the second runs only when the first returned.\<close>

definition andThen :: "error + 'a \<Rightarrow> ('a \<Rightarrow> error + 'b) \<Rightarrow> error + 'b" where
  "andThen r f = (case r of Inl e \<Rightarrow> Inl e | Inr x \<Rightarrow> f x)"

section \<open>The polyhedron mesh, as the Forme layer reads it\<close>

text \<open>
  The object graph of a polyhedron is a table of faces; an object reference to a face is
  its index in that table. Vectors are an abstract type \<open>'v\<close>: the sources compute them
  in floating point, and the Forme layer only hands them to \<open>getNormal\<close> and \<open>isInverse\<close>.
\<close>

record 'v vertex =
  index :: nat
  vec :: "'v"

text \<open>
  Modelled from the spec: Edge (Edge.ts is absent). An edge is an ordered pair of vertex
  references, has an owning face and a twin on the adjacent face; \<open>edge.face\<close> and
  \<open>edge.twin().face\<close> are kept as the indices of those two faces.
\<close>

record edge =
  ev1 :: nat
  ev2 :: nat
  faceIx :: nat
  twinFaceIx :: nat

text \<open>FaceLike.ts: anything with vertices and edges. A Face is a FaceLike with an index.\<close>

record 'v faceLike =
  vertices :: "'v vertex list"
  edges :: "edge list"

record 'v face = "'v faceLike" +
  faceIndex :: nat

text \<open>
  Modelled from the spec: Cap (Cap.ts is absent). A cap has a boundary (a FaceLike), inner
  vertices and constituent faces.
\<close>

record 'v cap =
  boundary :: "'v faceLike"
  innerVertices :: "'v vertex list"
  capFaces :: "nat list"

text \<open>
  Polyhedron.ts is absent. \<open>caps\<close> is the result of \<open>geom.caps()\<close>, which the sources
  recompute from the mesh on demand.
\<close>

record 'v polyhedron =
  pvertices :: "'v vertex list"
  faces :: "'v face list"
  caps :: "'v cap list"

definition numSides :: "('v, 'x) faceLike_scheme \<Rightarrow> nat" where
  "numSides f = length (vertices f)"

text \<open>
  \<open>edge.twin().face\<close> and \<open>edge.face\<close>: following a reference into the face table.
  In the sources a reference always leads to a face; this is the invariant \<open>wellFormed\<close>
  below, which the solids evaluated in this theory satisfy.
\<close>

definition twinFace :: "'v polyhedron \<Rightarrow> edge \<Rightarrow> 'v face" where
  "twinFace g e = faces g ! twinFaceIx e"

definition edgeFace :: "'v polyhedron \<Rightarrow> edge \<Rightarrow> 'v face" where
  "edgeFace g e = faces g ! faceIx e"

text \<open>FaceLike.adjacentFaces: \<open>this.edges.map(edge => edge.twin().face)\<close>.\<close>

definition adjacentFaces :: "'v polyhedron \<Rightarrow> ('v, 'x) faceLike_scheme \<Rightarrow> 'v face list" where
  "adjacentFaces g f = map (twinFace g) (edges f)"

text \<open>
  Modelled from the spec: Edge.adjacentFaces (Edge.ts is absent), the two faces an edge
  separates: its own face, then its twin's.
\<close>

definition edgeAdjacentFaces :: "'v polyhedron \<Rightarrow> edge \<Rightarrow> 'v face list" where
  "edgeAdjacentFaces g e = [edgeFace g e, twinFace g e]"

text \<open>
  Modelled from the spec: Face.equals and Face.inSet (Face.ts is absent). A face is
  identified within its polyhedron; the identity is its index, which augment.js reads as
  \<open>hitFace.index\<close>.
\<close>

definition equals :: "'v face \<Rightarrow> 'v face \<Rightarrow> bool" where
  "equals f f' = (faceIndex f = faceIndex f')"

definition inSet :: "'v face \<Rightarrow> 'v face list \<Rightarrow> bool" where
  "inSet f fs = list_ex (equals f) fs"

text \<open>
  Modelled from the spec: Polyhedron.largestFace (Polyhedron.ts is absent), a face with the
  greatest number of sides, the first such in face order. On a polyhedron with no face
  there is none, and reading \<open>numSides\<close> of the missing result is a TypeError.
\<close>

fun maxBySides :: "'v face \<Rightarrow> 'v face list \<Rightarrow> 'v face" where
  "maxBySides best [] = best"
| "maxBySides best (f # fs) = maxBySides (if numSides best < numSides f then f else best) fs"

definition largestFace :: "'v polyhedron \<Rightarrow> error + 'v face" where
  "largestFace g = (case faces g of [] \<Rightarrow> Inl TypeError | f # fs \<Rightarrow> Inr (maxBySides f fs))"

text \<open>
  The mesh invariant the constructors of the absent Polyhedron class establish: face
  \<open>i\<close> of the table has index \<open>i\<close>, every edge of a face names that face as its owner,
  and every face reference of an edge of a face or of a cap boundary is inside the table.
\<close>

definition edgeInTable :: "'v polyhedron \<Rightarrow> edge \<Rightarrow> bool" where
  "edgeInTable g e = (faceIx e < length (faces g) \<and> twinFaceIx e < length (faces g))"

definition wellFormed :: "'v polyhedron \<Rightarrow> bool" where
  "wellFormed g =
     (list_all (\<lambda>i. faceIndex (faces g ! i) = i
                  \<and> length (edges (faces g ! i)) = numSides (faces g ! i)
                  \<and> list_all (\<lambda>e. edgeInTable g e \<and> faceIx e = i
                        \<and> list_ex (\<lambda>e'. ev1 e' = ev2 e \<and> ev2 e' = ev1 e \<and> twinFaceIx e' = i)
                             (edges (faces g ! twinFaceIx e)))
                       (edges (faces g ! i)))
        [0 ..< length (faces g)]
      \<and> list_all (\<lambda>c. list_all (edgeInTable g) (edges (boundary c))) (caps g))"

section \<open>Composite specs, as the Forme layer reads them\<close>

text \<open>
  The Specs classes are absent. Their predicates are total and free of side effects, and
  take no argument: a Specs value is the record of what its predicates return.
\<close>

record prism =
  isSecondary :: bool

record classical =
  isIcosahedral :: bool
  isTetrahedral :: bool
  isRegular :: bool

record composite =
  name :: string
  isAugmentedPrism :: bool
  isAugmentedClassical :: bool
  isDiminishedSolid :: bool
  isGyrateSolid :: bool
  isMono :: bool
  isAugmented :: bool
  isDiminished :: bool
  sourcePrism :: prism
  sourceClassical :: classical

section \<open>CompositeForme.ts\<close>

datatype 'v compositeForme =
    AugmentedPrismForme composite "'v polyhedron"
  | AugmentedClassicalForme composite "'v polyhedron"
  | DiminishedSolidForme composite "'v polyhedron"
  | GyrateSolidForme composite "'v polyhedron"

fun specs :: "'v compositeForme \<Rightarrow> composite" where
  "specs (AugmentedPrismForme s g) = s"
| "specs (AugmentedClassicalForme s g) = s"
| "specs (DiminishedSolidForme s g) = s"
| "specs (GyrateSolidForme s g) = s"

fun geom :: "'v compositeForme \<Rightarrow> 'v polyhedron" where
  "geom (AugmentedPrismForme s g) = g"
| "geom (AugmentedClassicalForme s g) = g"
| "geom (DiminishedSolidForme s g) = g"
| "geom (GyrateSolidForme s g) = g"

text \<open>CompositeForme.create: the first family predicate that holds decides the variant.\<close>

definition create :: "composite \<Rightarrow> 'v polyhedron \<Rightarrow> error + 'v compositeForme" where
  "create s g =
     (if isAugmentedPrism s then Inr (AugmentedPrismForme s g)
      else if isAugmentedClassical s then Inr (AugmentedClassicalForme s g)
      else if isDiminishedSolid s then Inr (DiminishedSolidForme s g)
      else if isGyrateSolid s then Inr (GyrateSolidForme s g)
      else Inl (InvalidCompositeSpecs (name s)))"

text \<open>The family predicate a variant was chosen by.\<close>

fun familyPredicate :: "'v compositeForme \<Rightarrow> composite \<Rightarrow> bool" where
  "familyPredicate (AugmentedPrismForme _ _) = isAugmentedPrism"
| "familyPredicate (AugmentedClassicalForme _ _) = isAugmentedClassical"
| "familyPredicate (DiminishedSolidForme _ _) = isDiminishedSolid"
| "familyPredicate (GyrateSolidForme _ _) = isGyrateSolid"

text \<open>
  Callbacks of \<open>every\<close> and \<open>filter\<close> that may throw: the loop stops at the first
  exception, and \<open>every\<close> stops at the first false.
\<close>

fun everyE :: "('a \<Rightarrow> error + bool) \<Rightarrow> 'a list \<Rightarrow> error + bool" where
  "everyE p [] = Inr True"
| "everyE p (x # xs) =
     (case p x of Inl e \<Rightarrow> Inl e | Inr b \<Rightarrow> if b then everyE p xs else Inr False)"

fun filterE :: "('a \<Rightarrow> error + bool) \<Rightarrow> 'a list \<Rightarrow> error + 'a list" where
  "filterE p [] = Inr []"
| "filterE p (x # xs) =
     (case p x of Inl e \<Rightarrow> Inl e
      | Inr b \<Rightarrow> (case filterE p xs of Inl e \<Rightarrow> Inl e
                  | Inr ys \<Rightarrow> Inr (if b then x # ys else ys)))"

text \<open>
  \<open>caps()\<close>. AugmentedClassicalForme overrides it: over a regular tetrahedral source it
  returns \<open>[caps[0]]\<close>. When the geometry has no cap that list is \<open>[undefined]\<close>, and
  every reader of the list (\<open>flatMap\<close>, \<open>every\<close>, \<open>getSingle(...).normal()\<close>) calls a
  method of its element, a TypeError; the model returns that TypeError for the list.
\<close>

fun formeCaps :: "'v compositeForme \<Rightarrow> error + 'v cap list" where
  "formeCaps (AugmentedClassicalForme s g) =
     (if isTetrahedral (sourceClassical s) \<and> isRegular (sourceClassical s)
      then (case caps g of [] \<Rightarrow> Inl TypeError | c # _ \<Rightarrow> Inr [c])
      else Inr (caps g))"
| "formeCaps f = Inr (caps (geom f))"

definition capInnerVertIndices :: "'v compositeForme \<Rightarrow> error + nat list" where
  "capInnerVertIndices f =
     andThen (formeCaps f) (\<lambda>cs. Inr (concat (map (\<lambda>c. map index (innerVertices c)) cs)))"

text \<open>
  isSourceFace: \<open>face.vertices.every((v) => !this.capInnerVertIndices().has(v.index))\<close>.
  The callback evaluates \<open>capInnerVertIndices()\<close>, so a face with no vertex never does.
\<close>

definition isSourceFace :: "'v compositeForme \<Rightarrow> 'v face \<Rightarrow> error + bool" where
  "isSourceFace f fc =
     everyE (\<lambda>v. andThen (capInnerVertIndices f) (\<lambda>inner. Inr (index v \<notin> set inner)))
       (vertices fc)"

fun hasAlignment :: "'v compositeForme \<Rightarrow> bool" where
  "hasAlignment (AugmentedPrismForme s g) = (isMono s \<and> isSecondary (sourcePrism s))"
| "hasAlignment (AugmentedClassicalForme s g) = (isMono s \<and> isIcosahedral (sourceClassical s))"
| "hasAlignment f = isMono (specs f)"

text \<open>A modification site: \<open>type Base = Cap | Face\<close>.\<close>

datatype 'v base = CapBase "'v cap" | FaceBase "'v face"

text \<open>AugmentedPrismForme.isSideFace and AugmentedClassicalForme.isMainFace.\<close>

definition isSideFace :: "'v face \<Rightarrow> bool" where
  "isSideFace fc = (numSides fc = 4)"

definition isMainFace :: "'v compositeForme \<Rightarrow> 'v face \<Rightarrow> error + bool" where
  "isMainFace f fc =
     andThen (isSourceFace f fc) (\<lambda>src.
       if \<not> src then Inr False
       else if isRegular (sourceClassical (specs f)) then Inr True
       else Inr (numSides fc \<noteq> 3))"

text \<open>
  isDiminishedFace (DiminishedSolidForme and GyrateSolidForme):
  \<open>this.specs.isDiminished() && face.numSides === this.geom.largestFace().numSides\<close>.
\<close>

definition isDiminishedFace :: "'v compositeForme \<Rightarrow> 'v face \<Rightarrow> error + bool" where
  "isDiminishedFace f fc =
     (if \<not> isDiminished (specs f) then Inr False
      else andThen (largestFace (geom f)) (\<lambda>big. Inr (numSides fc = numSides big)))"

definition diminishedFaces :: "'v compositeForme \<Rightarrow> error + 'v face list" where
  "diminishedFaces f = filterE (isDiminishedFace f) (faces (geom f))"

text \<open>
  GyrateSolidForme.isGyrate reads only its argument; the polyhedron \<open>g\<close> is the face table
  in which the cap's edges are resolved. \<open>const [n1, n2] = edge.adjacentFaces().map((f) => f.numSides)\<close>
  leaves a missing element undefined, and \<open>undefined === 4\<close> is false.
\<close>

definition agreeOnSquare :: "nat list \<Rightarrow> bool" where
  "agreeOnSquare ns =
     (case ns of
        [] \<Rightarrow> True
      | [n1] \<Rightarrow> (n1 = 4) = False
      | n1 # n2 # _ \<Rightarrow> (n1 = 4) = (n2 = 4))"

definition isGyrate :: "'v polyhedron \<Rightarrow> 'v cap \<Rightarrow> bool" where
  "isGyrate g c =
     list_all (\<lambda>e. agreeOnSquare (map numSides (edgeAdjacentFaces g e))) (edges (boundary c))"

definition gyrateCaps :: "'v compositeForme \<Rightarrow> 'v cap list" where
  "gyrateCaps f = filter (isGyrate (geom f)) (caps (geom f))"

fun modifications :: "'v compositeForme \<Rightarrow> error + 'v base list" where
  "modifications (DiminishedSolidForme s g) =
     andThen (diminishedFaces (DiminishedSolidForme s g)) (\<lambda>fs. Inr (map FaceBase fs))"
| "modifications (GyrateSolidForme s g) =
     andThen (diminishedFaces (GyrateSolidForme s g))
       (\<lambda>fs. Inr (map CapBase (gyrateCaps (GyrateSolidForme s g)) @ map FaceBase fs))"
| "modifications f = andThen (formeCaps f) (\<lambda>cs. Inr (map CapBase cs))"

text \<open>
  The geometry helpers of math/geom and Cap.normal are absent: \<open>getNormal\<close>, \<open>isInverse\<close>
  and \<open>capNormal\<close> are parameters. FaceLike.normal is \<open>getNormal(this.vectors)\<close>.
\<close>

record 'v geometry =
  getNormal :: "'v list \<Rightarrow> 'v"
  isInverse :: "'v \<Rightarrow> 'v \<Rightarrow> bool"
  capNormal :: "'v cap \<Rightarrow> 'v"

definition vectors :: "('v, 'x) faceLike_scheme \<Rightarrow> 'v list" where
  "vectors f = map vec (vertices f)"

fun normal :: "'v geometry \<Rightarrow> 'v base \<Rightarrow> 'v" where
  "normal G (CapBase c) = capNormal G c"
| "normal G (FaceBase fc) = getNormal G (vectors fc)"

text \<open>
  Modelled from the spec: getSingle (utils is absent), the single element of a list; a
  list of any other length has none, which is an error.
\<close>

definition getSingle :: "'a list \<Rightarrow> error + 'a" where
  "getSingle xs = (case xs of [x] \<Rightarrow> Inr x | _ \<Rightarrow> Inl NotSingle)"

datatype alignment = Para | Meta

text \<open>\<open>alignment(cap)\<close>; the result \<open>None\<close> is \<open>undefined\<close>.\<close>

definition alignment :: "'v geometry \<Rightarrow> 'v compositeForme \<Rightarrow> 'v base \<Rightarrow> error + alignment option" where
  "alignment G f site =
     (if \<not> hasAlignment f then Inr None
      else andThen (modifications f) (\<lambda>ms.
           andThen (getSingle ms) (\<lambda>m.
             Inr (Some (if isInverse G (normal G site) (normal G m) then Para else Meta)))))"

text \<open>\<open>canAugment(face)\<close> of the four variants.\<close>

definition notOnCapBoundary :: "'v polyhedron \<Rightarrow> 'v face \<Rightarrow> 'v cap list \<Rightarrow> bool" where
  "notOnCapBoundary g fc cs =
     list_all (\<lambda>c. list_all (\<lambda>f'. \<not> equals f' fc) (adjacentFaces g (boundary c))) cs"

fun canAugment :: "'v compositeForme \<Rightarrow> 'v face \<Rightarrow> error + bool" where
  "canAugment (AugmentedPrismForme s g) fc =
     (if \<not> isSideFace fc then Inr False
      else andThen (formeCaps (AugmentedPrismForme s g)) (\<lambda>cs. Inr (notOnCapBoundary g fc cs)))"
| "canAugment (AugmentedClassicalForme s g) fc =
     andThen (isMainFace (AugmentedClassicalForme s g) fc) (\<lambda>main.
       if \<not> main then Inr False
       else andThen (formeCaps (AugmentedClassicalForme s g))
              (\<lambda>cs. Inr (notOnCapBoundary g fc cs)))"
| "canAugment (DiminishedSolidForme s g) fc =
     (if isAugmented s then Inr False
      else andThen (isDiminishedFace (DiminishedSolidForme s g) fc) (\<lambda>dim.
             if dim then Inr True
             else Inr (list_all (\<lambda>f'. numSides f' = 5) (adjacentFaces g fc))))"
| "canAugment (GyrateSolidForme s g) fc = isDiminishedFace (GyrateSolidForme s g) fc"

text \<open>
  Cyclic relabelling of a cap boundary: the same cycle of vertices and edges, started
  \<open>n\<close> places later.
\<close>

definition relabel :: "nat \<Rightarrow> 'v cap \<Rightarrow> 'v cap" where
  "relabel n c =
     c\<lparr>boundary := (boundary c)\<lparr>vertices := rotate n (vertices (boundary c)),
                                  edges := rotate n (edges (boundary c))\<rparr>\<rparr>"

section \<open>Two solids of the catalog, for evaluation\<close>

text \<open>
  Vectors with integer coordinates, and an exact instance of the geometry parameters: the
  normal of a planar polygon is the cross product of its first two sides (not scaled to
  unit length), and two vectors are inverse when they are parallel and point in opposite
  directions.
\<close>

type_synonym ivec = "int \<times> int \<times> int"

fun cross :: "ivec \<Rightarrow> ivec \<Rightarrow> ivec" where
  "cross (a1, a2, a3) (b1, b2, b3) = (a2 * b3 - a3 * b2, a3 * b1 - a1 * b3, a1 * b2 - a2 * b1)"

fun dot :: "ivec \<Rightarrow> ivec \<Rightarrow> int" where
  "dot (a1, a2, a3) (b1, b2, b3) = a1 * b1 + a2 * b2 + a3 * b3"

fun sub :: "ivec \<Rightarrow> ivec \<Rightarrow> ivec" where
  "sub (a1, a2, a3) (b1, b2, b3) = (a1 - b1, a2 - b2, a3 - b3)"

definition polygonNormal :: "ivec list \<Rightarrow> ivec" where
  "polygonNormal ps = (case ps of a # b # c # _ \<Rightarrow> cross (sub b a) (sub c a) | _ \<Rightarrow> (0, 0, 0))"

definition exactGeometry :: "ivec geometry" where
  "exactGeometry =
     \<lparr>getNormal = polygonNormal,
      isInverse = (\<lambda>v w. cross v w = (0, 0, 0) \<and> dot v w < 0),
      capNormal = (\<lambda>c. polygonNormal (vectors (boundary c)))\<rparr>"

definition mkVertex :: "ivec list \<Rightarrow> nat \<Rightarrow> ivec vertex" where
  "mkVertex ps i = \<lparr>index = i, vec = ps ! i\<rparr>"

definition mkEdge :: "nat \<Rightarrow> nat \<Rightarrow> nat \<Rightarrow> nat \<Rightarrow> edge" where
  "mkEdge a b f t = \<lparr>ev1 = a, ev2 = b, faceIx = f, twinFaceIx = t\<rparr>"

definition mkFace :: "ivec list \<Rightarrow> nat \<Rightarrow> nat list \<Rightarrow> edge list \<Rightarrow> ivec face" where
  "mkFace ps i vs es = \<lparr>vertices = map (mkVertex ps) vs, edges = es, faceIndex = i\<rparr>"

definition mkCap :: "ivec list \<Rightarrow> nat \<Rightarrow> nat list \<Rightarrow> edge list \<Rightarrow> nat list \<Rightarrow> ivec cap" where
  "mkCap ps apex ring es fs =
     \<lparr>boundary = \<lparr>vertices = map (mkVertex ps) ring, edges = es\<rparr>,
      innerVertices = [mkVertex ps apex], capFaces = fs\<rparr>"

text \<open>
  The diminished icosahedron (an icosahedron with one vertex cut off): vertices 0..4 are
  the ring of the pentagon left by the cut, 5..9 the ring below it, 10 the bottom apex.
  Face 0 is the pentagon. Each of the vertices 5..10 is the apex of a pentagonal pyramid
  of five triangles, a cap. The coordinates are rounded to integers.
\<close>

definition diminishedIcosahedronPoints :: "ivec list" where
  "diminishedIcosahedronPoints =
     [(100, 0, 50), (31, 95, 50), (-81, 59, 50), (-81, -59, 50), (31, -95, 50),
      (81, 59, -50), (-31, 95, -50), (-100, 0, -50), (-31, -95, -50), (81, -59, -50),
      (0, 0, -112)]"

definition diminishedIcosahedronFaces :: "ivec face list" where
  "diminishedIcosahedronFaces =
    (let ps = diminishedIcosahedronPoints in
    [mkFace ps 0 [0, 1, 2, 3, 4]
       [mkEdge 0 1 0 1, mkEdge 1 2 0 2, mkEdge 2 3 0 3, mkEdge 3 4 0 4, mkEdge 4 0 0 5],
     mkFace ps 1 [1, 0, 5]
       [mkEdge 1 0 1 0, mkEdge 0 5 1 10, mkEdge 5 1 1 6],
     mkFace ps 2 [2, 1, 6]
       [mkEdge 2 1 2 0, mkEdge 1 6 2 6, mkEdge 6 2 2 7],
     mkFace ps 3 [3, 2, 7]
       [mkEdge 3 2 3 0, mkEdge 2 7 3 7, mkEdge 7 3 3 8],
     mkFace ps 4 [4, 3, 8]
       [mkEdge 4 3 4 0, mkEdge 3 8 4 8, mkEdge 8 4 4 9],
     mkFace ps 5 [0, 4, 9]
       [mkEdge 0 4 5 0, mkEdge 4 9 5 9, mkEdge 9 0 5 10],
     mkFace ps 6 [1, 5, 6]
       [mkEdge 1 5 6 1, mkEdge 5 6 6 11, mkEdge 6 1 6 2],
     mkFace ps 7 [2, 6, 7]
       [mkEdge 2 6 7 2, mkEdge 6 7 7 12, mkEdge 7 2 7 3],
     mkFace ps 8 [3, 7, 8]
       [mkEdge 3 7 8 3, mkEdge 7 8 8 13, mkEdge 8 3 8 4],
     mkFace ps 9 [4, 8, 9]
       [mkEdge 4 8 9 4, mkEdge 8 9 9 14, mkEdge 9 4 9 5],
     mkFace ps 10 [0, 9, 5]
       [mkEdge 0 9 10 5, mkEdge 9 5 10 15, mkEdge 5 0 10 1],
     mkFace ps 11 [6, 5, 10]
       [mkEdge 6 5 11 6, mkEdge 5 10 11 15, mkEdge 10 6 11 12],
     mkFace ps 12 [7, 6, 10]
       [mkEdge 7 6 12 7, mkEdge 6 10 12 11, mkEdge 10 7 12 13],
     mkFace ps 13 [8, 7, 10]
       [mkEdge 8 7 13 8, mkEdge 7 10 13 12, mkEdge 10 8 13 14],
     mkFace ps 14 [9, 8, 10]
       [mkEdge 9 8 14 9, mkEdge 8 10 14 13, mkEdge 10 9 14 15],
     mkFace ps 15 [5, 9, 10]
       [mkEdge 5 9 15 10, mkEdge 9 10 15 14, mkEdge 10 5 15 11]])"

definition diminishedIcosahedronCaps :: "ivec cap list" where
  "diminishedIcosahedronCaps =
    (let ps = diminishedIcosahedronPoints in
    [mkCap ps 5 [0, 9, 10, 6, 1]
       [mkEdge 0 9 10 5, mkEdge 9 10 15 14, mkEdge 10 6 11 12, mkEdge 6 1 6 2, mkEdge 1 0 1 0]
       [1, 6, 10, 11, 15],
     mkCap ps 6 [1, 5, 10, 7, 2]
       [mkEdge 1 5 6 1, mkEdge 5 10 11 15, mkEdge 10 7 12 13, mkEdge 7 2 7 3, mkEdge 2 1 2 0]
       [2, 6, 7, 11, 12],
     mkCap ps 7 [2, 6, 10, 8, 3]
       [mkEdge 2 6 7 2, mkEdge 6 10 12 11, mkEdge 10 8 13 14, mkEdge 8 3 8 4, mkEdge 3 2 3 0]
       [3, 7, 8, 12, 13],
     mkCap ps 8 [3, 7, 10, 9, 4]
       [mkEdge 3 7 8 3, mkEdge 7 10 13 12, mkEdge 10 9 14 15, mkEdge 9 4 9 5, mkEdge 4 3 4 0]
       [4, 8, 9, 13, 14],
     mkCap ps 9 [0, 4, 8, 10, 5]
       [mkEdge 0 4 5 0, mkEdge 4 8 9 4, mkEdge 8 10 14 13, mkEdge 10 5 15 11, mkEdge 5 0 10 1]
       [5, 9, 10, 14, 15],
     mkCap ps 10 [5, 9, 8, 7, 6]
       [mkEdge 5 9 15 10, mkEdge 9 8 14 9, mkEdge 8 7 13 8, mkEdge 7 6 12 7, mkEdge 6 5 11 6]
       [11, 12, 13, 14, 15]])"

definition diminishedIcosahedron :: "ivec polyhedron" where
  "diminishedIcosahedron =
     \<lparr>pvertices = map (mkVertex diminishedIcosahedronPoints) [0 ..< 11],
      faces = diminishedIcosahedronFaces,
      caps = diminishedIcosahedronCaps\<rparr>"

definition diminishedIcosahedronSpecs :: composite where
  "diminishedIcosahedronSpecs =
     \<lparr>name = ''diminished icosahedron'',
      isAugmentedPrism = False, isAugmentedClassical = False,
      isDiminishedSolid = True, isGyrateSolid = False,
      isMono = True, isAugmented = False, isDiminished = True,
      sourcePrism = \<lparr>isSecondary = False\<rparr>,
      sourceClassical = \<lparr>isIcosahedral = True, isTetrahedral = False, isRegular = True\<rparr>\<rparr>"

text \<open>
  The augmented triangular prism: the prism has the triangles 0, 1, 2 and 3, 4, 5 (vertex
  3 under 0, 4 under 1, 5 under 2), and a square pyramid with apex 6 sits on the square
  0, 1, 4, 3. Faces 2 and 3 are the two squares left; the pyramid is the only cap.
\<close>

definition augmentedPrismPoints :: "ivec list" where
  "augmentedPrismPoints =
     [(0, 0, 4), (4, 0, 4), (2, 3, 4), (0, 0, 0), (4, 0, 0), (2, 3, 0), (2, -3, 2)]"

definition augmentedPrismFaces :: "ivec face list" where
  "augmentedPrismFaces =
    (let ps = augmentedPrismPoints in
    [mkFace ps 0 [0, 1, 2]
       [mkEdge 0 1 0 4, mkEdge 1 2 0 2, mkEdge 2 0 0 3],
     mkFace ps 1 [3, 5, 4]
       [mkEdge 3 5 1 3, mkEdge 5 4 1 2, mkEdge 4 3 1 6],
     mkFace ps 2 [1, 4, 5, 2]
       [mkEdge 1 4 2 5, mkEdge 4 5 2 1, mkEdge 5 2 2 3, mkEdge 2 1 2 0],
     mkFace ps 3 [2, 5, 3, 0]
       [mkEdge 2 5 3 2, mkEdge 5 3 3 1, mkEdge 3 0 3 7, mkEdge 0 2 3 0],
     mkFace ps 4 [1, 0, 6]
       [mkEdge 1 0 4 0, mkEdge 0 6 4 7, mkEdge 6 1 4 5],
     mkFace ps 5 [4, 1, 6]
       [mkEdge 4 1 5 2, mkEdge 1 6 5 4, mkEdge 6 4 5 6],
     mkFace ps 6 [3, 4, 6]
       [mkEdge 3 4 6 1, mkEdge 4 6 6 5, mkEdge 6 3 6 7],
     mkFace ps 7 [0, 3, 6]
       [mkEdge 0 3 7 3, mkEdge 3 6 7 6, mkEdge 6 0 7 4]])"

definition augmentedPrismCap :: "ivec cap" where
  "augmentedPrismCap =
     mkCap augmentedPrismPoints 6 [0, 3, 4, 1]
       [mkEdge 0 3 7 3, mkEdge 3 4 6 1, mkEdge 4 1 5 2, mkEdge 1 0 4 0]
       [4, 5, 6, 7]"

definition augmentedPrism :: "ivec polyhedron" where
  "augmentedPrism =
     \<lparr>pvertices = map (mkVertex augmentedPrismPoints) [0 ..< 7],
      faces = augmentedPrismFaces,
      caps = [augmentedPrismCap]\<rparr>"

definition augmentedPrismSpecs :: composite where
  "augmentedPrismSpecs =
     \<lparr>name = ''augmented triangular prism'',
      isAugmentedPrism = True, isAugmentedClassical = False,
      isDiminishedSolid = False, isGyrateSolid = False,
      isMono = True, isAugmented = True, isDiminished = False,
      sourcePrism = \<lparr>isSecondary = False\<rparr>,
      sourceClassical = \<lparr>isIcosahedral = False, isTetrahedral = False, isRegular = False\<rparr>\<rparr>"

section \<open>operationPairs.ts\<close>

subsection \<open>Option objects and lodash's isMatch and pickBy\<close>

text \<open>
  An options object is a finite map from property names to values. The option values of
  the graphs are primitives (a twist direction, an alignment tag), so \<open>jsValue\<close> has
  the primitive values of JavaScript only; on primitives lodash compares with \<open>===\<close>.
  \<open>isMatch(object, source)\<close>: every property of \<open>source\<close> is a property of \<open>object\<close>
  with the same value. \<open>pickBy(object)\<close> keeps the properties whose value is truthy.
\<close>

datatype jsValue = JUndefined | JNull | JBool bool | JNum int | JStr string

type_synonym jsObject = "(string, jsValue) fmap"

fun truthy :: "jsValue \<Rightarrow> bool" where
  "truthy JUndefined = False"
| "truthy JNull = False"
| "truthy (JBool b) = b"
| "truthy (JNum n) = (n \<noteq> 0)"
| "truthy (JStr s) = (s \<noteq> [])"

definition isMatch :: "jsObject \<Rightarrow> jsObject \<Rightarrow> bool" where
  "isMatch object source = fmpred (\<lambda>k v. fmlookup object k = Some v) source"

definition pickBy :: "jsObject \<Rightarrow> jsObject" where
  "pickBy object =
     fmfilter (\<lambda>k. case fmlookup object k of Some v \<Rightarrow> truthy v | None \<Rightarrow> False) object"

text \<open>\<open>x ?? {}\<close> on an optional options object.\<close>

definition orEmpty :: "jsObject option \<Rightarrow> jsObject" where
  "orEmpty opts = (case opts of None \<Rightarrow> fmempty | Some ob \<Rightarrow> ob)"

subsection \<open>Graph entries\<close>

fun oppositeSide :: "side \<Rightarrow> side" where
  "oppositeSide Left = Right"
| "oppositeSide Right = Left"

record graphOpts =
  optsLeft :: jsObject
  optsRight :: jsObject

record 's graphEntry =
  left :: "'s"
  right :: "'s"
  options :: "graphOpts option"

text \<open>\<open>entry[side]\<close> and \<open>entry.options?.[side] ?? {}\<close>.\<close>

fun entrySide :: "'s graphEntry \<Rightarrow> side \<Rightarrow> 's" where
  "entrySide e Left = left e"
| "entrySide e Right = right e"

fun optsSide :: "graphOpts \<Rightarrow> side \<Rightarrow> jsObject" where
  "optsSide go Left = optsLeft go"
| "optsSide go Right = optsRight go"

definition sideOptions :: "'s graphEntry \<Rightarrow> side \<Rightarrow> jsObject" where
  "sideOptions e sd = orEmpty (map_option (\<lambda>go. optsSide go sd) (options e))"

text \<open>The entries of the one-way operation of a side (\<open>toDirected\<close>).\<close>

record 's directedGraphEntry =
  start :: "'s"
  end' :: "'s"
  directedOptions :: "jsObject option"

definition toDirected :: "side \<Rightarrow> 's graphEntry list \<Rightarrow> 's directedGraphEntry list" where
  "toDirected sd graph =
     map (\<lambda>entry. \<lparr>start = entrySide entry sd, end' = entrySide entry (oppositeSide sd),
                    directedOptions = map_option (\<lambda>go. optsSide go sd) (options entry)\<rparr>) graph"

subsection \<open>OpPair\<close>

text \<open>
  Modelled from the spec: \<open>equals\<close> of a Specs value (the Specs classes are absent) is
  structural comparison, two Specs with the same field values are equal: HOL equality.
  The graph of an OpPair is the list \<open>[...this.inputs.graph()]\<close> of what the generator yields.
\<close>

definition matchesEntry :: "side \<Rightarrow> 's \<Rightarrow> jsObject option \<Rightarrow> 's graphEntry \<Rightarrow> bool" where
  "matchesEntry sd sp opts entry =
     (entrySide entry sd = sp \<and> isMatch (sideOptions entry sd) (orEmpty opts))"

definition getEntries :: "'s graphEntry list \<Rightarrow> side \<Rightarrow> 's \<Rightarrow> 's graphEntry list" where
  "getEntries graph sd sp = filter (\<lambda>entry. entrySide entry sd = sp) graph"

definition findEntry ::
  "'s graphEntry list \<Rightarrow> side \<Rightarrow> 's \<Rightarrow> jsObject option \<Rightarrow> 's graphEntry option" where
  "findEntry graph sd sp opts = List.find (matchesEntry sd sp opts) graph"

definition getEntry ::
  "'s graphEntry list \<Rightarrow> side \<Rightarrow> 's \<Rightarrow> jsObject option \<Rightarrow> error + 's graphEntry" where
  "getEntry graph sd sp opts =
     (case findEntry graph sd sp opts of
        None \<Rightarrow> Inl (CouldNotFindEntry sd)
      | Some entry \<Rightarrow> Inr entry)"

definition hasOptions :: "'s graphEntry list \<Rightarrow> side \<Rightarrow> 's \<Rightarrow> bool" where
  "hasOptions graph sd sp = (length (getEntries graph sd sp) > 1)"

definition canApplyTo :: "'s graphEntry list \<Rightarrow> side \<Rightarrow> 's \<Rightarrow> bool" where
  "canApplyTo graph sd sp = (findEntry graph sd sp None \<noteq> None)"

definition getOpposite ::
  "'s graphEntry list \<Rightarrow> side \<Rightarrow> 's \<Rightarrow> jsObject option \<Rightarrow> error + 's" where
  "getOpposite graph sd sp opts =
     andThen (getEntry graph sd sp opts) (\<lambda>entry. Inr (entrySide entry (oppositeSide sd)))"

text \<open>
  A forme of the operation engine pairs a Specs with a geometry. The collaborators of
  \<open>apply\<close> are absent from the sources and specified at their interface only:
  \<open>createForme\<close> (which for a Composite is \<open>CompositeForme.create\<close> and throws on a
  Specs of no family), the geometry provider \<open>getGeometry\<close> (which fails on a Specs it
  does not know), \<open>alignPolyhedron\<close>, \<open>geom.withVertices\<close> (which fails on a vertex list
  of another length), \<open>geom.vertices\<close> and the relaxed comparison \<open>equivalent\<close> of two
  Specs. They are parameters, with a geometry type \<open>'g\<close>, a pose type \<open>'p\<close> and a type
  \<open>'w\<close> of vertex lists; each call that may throw returns \<open>error + _\<close>.
\<close>

record ('s, 'g) polyhedronForme =
  formeSpecs :: "'s"
  formeGeom :: "'g"

record ('s, 'g, 'p, 'w) collaborators =
  createForme :: "'s \<Rightarrow> 'g \<Rightarrow> error + ('s, 'g) polyhedronForme"
  getGeometry :: "'s \<Rightarrow> error + 'g"
  alignPolyhedron :: "'g \<Rightarrow> 'p \<Rightarrow> 'p \<Rightarrow> error + 'g"
  withVertices :: "'g \<Rightarrow> 'w \<Rightarrow> error + 'g"
  geomVertices :: "'g \<Rightarrow> 'w"
  equivalent :: "'s \<Rightarrow> 's \<Rightarrow> bool"

text \<open>
  OpPairInput. \<open>middle\<close> is a side or a function of the entry that returns a Specs or a
  forme; \<open>toLeft\<close> and \<open>toRight\<close> are optional and default to \<open>defaultGetter\<close>. The
  functions of an input are code of the caller and may throw.
\<close>

record ('s, 'g, 'p, 'w) opPairInput =
  graph :: "'s graphEntry list"
  middle :: "side + ('s graphEntry \<Rightarrow> error + ('s + ('s, 'g) polyhedronForme))"
  getPose :: "('s, 'g) polyhedronForme \<Rightarrow> graphOpts \<Rightarrow> error + 'p"
  toLeft :: "(('s, 'g) polyhedronForme \<Rightarrow> graphOpts \<Rightarrow> 's \<Rightarrow> error + 'w) option"
  toRight :: "(('s, 'g) polyhedronForme \<Rightarrow> graphOpts \<Rightarrow> 's \<Rightarrow> error + 'w) option"

definition defaultGetter ::
  "('s, 'g, 'p, 'w) collaborators \<Rightarrow> ('s, 'g) polyhedronForme \<Rightarrow> graphOpts \<Rightarrow> 's \<Rightarrow> error + 'w" where
  "defaultGetter C solid opts res = Inr (geomVertices C (formeGeom solid))"

record ('g, 'w) opResult =
  animationStart :: "'g"
  animationEndVertices :: "'w"
  result :: "'g"

text \<open>
  The middle forme of \<open>apply\<close>: one of the two ends when \<open>middle\<close> is a side, else the
  forme of the intermediate Specs (or the intermediate forme itself) aligned onto the
  start pose.
\<close>

definition middleForme ::
  "('s, 'g, 'p, 'w) collaborators \<Rightarrow> ('s, 'g, 'p, 'w) opPairInput \<Rightarrow> side \<Rightarrow> 's graphEntry
     \<Rightarrow> graphOpts \<Rightarrow> ('s, 'g) polyhedronForme \<Rightarrow> 'p \<Rightarrow> 's \<Rightarrow> 'g
     \<Rightarrow> error + ('s, 'g) polyhedronForme" where
  "middleForme C inputs sd entry opts solidForme startPose endSpecs alignedEnd =
     (case middle inputs of
        Inl middleSide \<Rightarrow>
          if middleSide = sd then Inr solidForme else createForme C endSpecs alignedEnd
      | Inr getMiddle \<Rightarrow>
          andThen (getMiddle entry) (\<lambda>intermediate.
          andThen (case intermediate of
                     Inr forme \<Rightarrow> Inr forme
                   | Inl interSpecs \<Rightarrow>
                       andThen (getGeometry C interSpecs) (createForme C interSpecs))
            (\<lambda>middleSolid.
          andThen (getPose inputs middleSolid opts) (\<lambda>middlePose.
          andThen (alignPolyhedron C (formeGeom middleSolid) middlePose startPose)
            (\<lambda>alignedInter. createForme C (formeSpecs middleSolid) alignedInter)))))"

text \<open>
  The body of \<open>apply\<close> after the entry is resolved, in the order in which JavaScript
  evaluates it; the first call that throws ends it.
\<close>

definition applyEntry ::
  "('s, 'g, 'p, 'w) collaborators \<Rightarrow> ('s, 'g, 'p, 'w) opPairInput \<Rightarrow> side
     \<Rightarrow> ('s, 'g) polyhedronForme \<Rightarrow> 's graphEntry \<Rightarrow> error + ('g, 'w) opResult" where
  "applyEntry C inputs sd solid entry =
     (let toLeftFn = (case toLeft inputs of None \<Rightarrow> defaultGetter C | Some fn \<Rightarrow> fn);
          toRightFn = (case toRight inputs of None \<Rightarrow> defaultGetter C | Some fn \<Rightarrow> fn);
          opts = (case options entry of
                    None \<Rightarrow> \<lparr>optsLeft = fmempty, optsRight = fmempty\<rparr>
                  | Some go \<Rightarrow> go);
          endSpecs = entrySide entry (oppositeSide sd);
          startFn = (if sd = Left then toLeftFn else toRightFn);
          endFn = (if sd = Left then toRightFn else toLeftFn)
      in andThen (createForme C (formeSpecs solid) (formeGeom solid)) (\<lambda>solidForme.
         andThen (getPose inputs solidForme opts) (\<lambda>startPose.
         andThen (getGeometry C endSpecs) (\<lambda>endGeom.
         andThen (createForme C endSpecs endGeom) (\<lambda>endForme.
         andThen (getPose inputs endForme opts) (\<lambda>endPose.
         andThen (alignPolyhedron C endGeom endPose startPose) (\<lambda>alignedEnd.
         andThen (middleForme C inputs sd entry opts solidForme startPose endSpecs alignedEnd)
           (\<lambda>mid.
         andThen (startFn mid opts (formeSpecs solid)) (\<lambda>startVertices.
         andThen (withVertices C (formeGeom mid) startVertices) (\<lambda>animStart.
         andThen (endFn mid opts endSpecs) (\<lambda>endVertices.
           Inr \<lparr>animationStart = animStart, animationEndVertices = endVertices,
                result = alignedEnd\<rparr>)))))))))))"

text \<open>\<open>OpPair.apply\<close> (\<open>apply\<close> is a keyword of Isabelle).\<close>

definition applyPair ::
  "('s, 'g, 'p, 'w) collaborators \<Rightarrow> ('s, 'g, 'p, 'w) opPairInput \<Rightarrow> side
     \<Rightarrow> ('s, 'g) polyhedronForme \<Rightarrow> jsObject option \<Rightarrow> error + ('g, 'w) opResult" where
  "applyPair C inputs sd solid opts =
     andThen (getEntry (graph inputs) sd (formeSpecs solid) opts)
       (applyEntry C inputs sd solid)"

subsection \<open>One-way operations and combineOps\<close>

text \<open>
  OpInput: \<open>apply\<close>, \<open>graph\<close> and \<open>toGraphOpts\<close> of a one-way operation, with options
  of a type \<open>'o\<close> and results of a type \<open>'r\<close>.
\<close>

record ('s, 'g, 'o, 'r) opInput =
  opApply :: "('s, 'g) polyhedronForme \<Rightarrow> 'o \<Rightarrow> 'r"
  opGraph :: "'s directedGraphEntry list"
  toGraphOpts :: "('s, 'g) polyhedronForme \<Rightarrow> 'o \<Rightarrow> jsObject"

definition makeOperation ::
  "('s, 'g, 'p, 'w) collaborators \<Rightarrow> side \<Rightarrow> ('s, 'g, 'p, 'w) opPairInput
     \<Rightarrow> ('s, 'g, jsObject, error + ('g, 'w) opResult) opInput" where
  "makeOperation C sd inputs =
     \<lparr>opApply = (\<lambda>solid opts. applyPair C inputs sd solid (Some opts)),
      opGraph = toDirected sd (graph inputs),
      toGraphOpts = (\<lambda>forme opts. opts)\<rparr>"

text \<open>
  \<open>doWithRightForme\<close>: the inner loop over the entries of one sub-operation, then the
  outer loop over the sub-operations. The callback gets the sub-operation, the forme
  built on the entry's start Specs and the derived graph options. \<open>createForme\<close> is
  called on every entry whose start Specs is equivalent to the solid's, and its exception
  ends both loops.
\<close>

fun findRightForme ::
  "('s, 'g, 'p, 'w) collaborators \<Rightarrow> ('s, 'g, 'o, 'r) opInput \<Rightarrow> ('s, 'g) polyhedronForme
     \<Rightarrow> 'o \<Rightarrow> 's directedGraphEntry list
     \<Rightarrow> error + (('s, 'g) polyhedronForme \<times> jsObject) option" where
  "findRightForme C op solid opts [] = Inr None"
| "findRightForme C op solid opts (entry # entries) =
     (if \<not> equivalent C (start entry) (formeSpecs solid)
      then findRightForme C op solid opts entries
      else (case createForme C (start entry) (formeGeom solid) of
              Inl err \<Rightarrow> Inl err
            | Inr forme \<Rightarrow>
                (let graphOpts = toGraphOpts op forme opts
                 in if isMatch (orEmpty (directedOptions entry)) (pickBy graphOpts)
                    then Inr (Some (forme, graphOpts))
                    else findRightForme C op solid opts entries)))"

fun doWithRightForme ::
  "('s, 'g, 'p, 'w) collaborators \<Rightarrow> ('s, 'g, 'o, 'r) opInput list \<Rightarrow> ('s, 'g) polyhedronForme
     \<Rightarrow> 'o \<Rightarrow> (('s, 'g, 'o, 'r) opInput \<Rightarrow> ('s, 'g) polyhedronForme \<Rightarrow> jsObject \<Rightarrow> 'a)
     \<Rightarrow> error + 'a" where
  "doWithRightForme C [] solid opts callback = Inl CouldNotFindMatchingGraphEntry"
| "doWithRightForme C (op # ops) solid opts callback =
     (case findRightForme C op solid opts (opGraph op) of
        Inl err \<Rightarrow> Inl err
      | Inr (Some (forme, graphOpts)) \<Rightarrow> Inr (callback op forme graphOpts)
      | Inr None \<Rightarrow> doWithRightForme C ops solid opts callback)"

definition combinedGraph :: "('s, 'g, 'o, 'r) opInput list \<Rightarrow> 's directedGraphEntry list" where
  "combinedGraph opArgs = concat (map opGraph opArgs)"

definition combinedApply ::
  "('s, 'g, 'p, 'w) collaborators \<Rightarrow> ('s, 'g, 'o, 'r) opInput list \<Rightarrow> ('s, 'g) polyhedronForme
     \<Rightarrow> 'o \<Rightarrow> error + 'r" where
  "combinedApply C opArgs solid opts =
     doWithRightForme C opArgs solid opts (\<lambda>op forme graphOpts. opApply op forme opts)"

definition combinedToGraphOpts ::
  "('s, 'g, 'p, 'w) collaborators \<Rightarrow> ('s, 'g, 'o, 'r) opInput list \<Rightarrow> ('s, 'g) polyhedronForme
     \<Rightarrow> 'o \<Rightarrow> error + jsObject" where
  "combinedToGraphOpts C opArgs solid opts =
     doWithRightForme C opArgs solid opts (\<lambda>op forme graphOpts. graphOpts)"

text \<open>
  What the specification says of the dispatch: an entry of a sub-operation matches a solid
  when its start Specs is equivalent to the solid's and its options contain the truthy
  part of the graph options derived for the forme on that start Specs. The graph options
  are derived from that forme, so there are none when \<open>createForme\<close> throws on the start
  Specs: \<open>formeFails\<close>. The loops stop at the first entry that matches or on which
  \<open>createForme\<close> throws.
\<close>

definition entryApplies ::
  "('s, 'g, 'p, 'w) collaborators \<Rightarrow> ('s, 'g, 'o, 'r) opInput \<Rightarrow> ('s, 'g) polyhedronForme
     \<Rightarrow> 'o \<Rightarrow> 's directedGraphEntry \<Rightarrow> bool" where
  "entryApplies C op solid opts entry =
     (equivalent C (start entry) (formeSpecs solid)
      \<and> (case createForme C (start entry) (formeGeom solid) of
            Inl err \<Rightarrow> False
          | Inr forme \<Rightarrow>
              isMatch (orEmpty (directedOptions entry)) (pickBy (toGraphOpts op forme opts))))"

definition formeFails ::
  "('s, 'g, 'p, 'w) collaborators \<Rightarrow> ('s, 'g) polyhedronForme \<Rightarrow> 's directedGraphEntry \<Rightarrow> bool" where
  "formeFails C solid entry =
     (equivalent C (start entry) (formeSpecs solid)
      \<and> (case createForme C (start entry) (formeGeom solid) of
            Inl err \<Rightarrow> True | Inr forme \<Rightarrow> False))"

definition firstEntry ::
  "('op \<Rightarrow> 'e list) \<Rightarrow> ('op \<Rightarrow> 'e \<Rightarrow> bool) \<Rightarrow> 'op list \<Rightarrow> ('op \<times> 'e) option" where
  "firstEntry entriesOf p opArgs =
     (case List.find (\<lambda>op. list_ex (p op) (entriesOf op)) opArgs of
        None \<Rightarrow> None
      | Some op \<Rightarrow> map_option (Pair op) (List.find (p op) (entriesOf op)))"

definition firstApplicable ::
  "('s, 'g, 'p, 'w) collaborators \<Rightarrow> ('s, 'g, 'o, 'r) opInput list \<Rightarrow> ('s, 'g) polyhedronForme
     \<Rightarrow> 'o \<Rightarrow> (('s, 'g, 'o, 'r) opInput \<times> 's directedGraphEntry) option" where
  "firstApplicable C opArgs solid opts =
     firstEntry opGraph (\<lambda>op. entryApplies C op solid opts) opArgs"

definition firstDeciding ::
  "('s, 'g, 'p, 'w) collaborators \<Rightarrow> ('s, 'g, 'o, 'r) opInput list \<Rightarrow> ('s, 'g) polyhedronForme
     \<Rightarrow> 'o \<Rightarrow> (('s, 'g, 'o, 'r) opInput \<times> 's directedGraphEntry) option" where
  "firstDeciding C opArgs solid opts =
     firstEntry opGraph
       (\<lambda>op entry. entryApplies C op solid opts entry \<or> formeFails C solid entry) opArgs"

text \<open>The outcome of the dispatch at an entry: the callback on the forme of its start Specs.\<close>

definition dispatchAt ::
  "('s, 'g, 'p, 'w) collaborators \<Rightarrow> ('s, 'g) polyhedronForme \<Rightarrow> 'o
     \<Rightarrow> (('s, 'g, 'o, 'r) opInput \<Rightarrow> ('s, 'g) polyhedronForme \<Rightarrow> jsObject \<Rightarrow> 'a)
     \<Rightarrow> (('s, 'g, 'o, 'r) opInput \<times> 's directedGraphEntry) option \<Rightarrow> error + 'a" where
  "dispatchAt C solid opts callback found =
     (case found of
        None \<Rightarrow> Inl CouldNotFindMatchingGraphEntry
      | Some (op, entry) \<Rightarrow>
          andThen (createForme C (start entry) (formeGeom solid))
            (\<lambda>forme. Inr (callback op forme (toGraphOpts op forme opts))))"

section \<open>prismOps.ts: the graphs of the prism operations\<close>

text \<open>
  Modelled from the spec: Capstone (the Specs classes are absent). A Capstone has a
  base-sides count, an elongation (none, prism or antiprism), a twist (none, left or
  right), is primary or secondary, has a count of caps, and may say how its two caps are
  turned against each other. \<open>withData\<close> overwrites the named fields: a record update.
  The predicates of the class that the graphs filter with are parameters. The constants
  \<open>twists\<close> and \<open>oppositeTwist\<close> of the absent module types are the two twist
  directions, left first, and the swap of the two.
\<close>

datatype elongation = Prism | Antiprism

datatype twist = TwistLeft | TwistRight

datatype gyrate = Ortho | Gyro

record capstone =
  base :: nat
  primary :: bool
  elongation :: "elongation option"
  count :: nat
  gyrate :: "gyrate option"
  twist :: "twist option"

fun oppositeTwist :: "twist \<Rightarrow> twist" where
  "oppositeTwist TwistLeft = TwistRight"
| "oppositeTwist TwistRight = TwistLeft"

definition twists :: "twist list" where
  "twists = [TwistLeft, TwistRight]"

fun twistValue :: "twist \<Rightarrow> jsValue" where
  "twistValue TwistLeft = JStr ''left''"
| "twistValue TwistRight = JStr ''right''"

definition twistOpts :: "twist \<Rightarrow> jsObject" where
  "twistOpts t = fmupd ''twist'' (twistValue t) fmempty"

text \<open>
  \<open>makePrismOp({ query, rightElongation })(leftElongation)\<close>: the graph over the catalog
  \<open>Capstone.query\<close>, a parameter.
\<close>

definition makePrismOpGraph ::
  "(capstone \<Rightarrow> bool) \<Rightarrow> (capstone \<Rightarrow> bool) \<Rightarrow> elongation \<Rightarrow> elongation option
     \<Rightarrow> capstone list \<Rightarrow> capstone graphEntry list" where
  "makePrismOpGraph query isPrismatic rightElongation leftElongation catalog =
     map (\<lambda>item. \<lparr>left = item\<lparr>elongation := leftElongation\<rparr>, right = item, options = None\<rparr>)
       (filter (\<lambda>s. query s \<and> \<not> isPrismatic s \<and> elongation s = Some rightElongation) catalog)"

text \<open>\<open>_elongate\<close>: \<open>makePrismOp({ query: (s) => !s.isDigonal(), rightElongation: "prism" })(null)\<close>.\<close>

definition elongateGraph ::
  "(capstone \<Rightarrow> bool) \<Rightarrow> (capstone \<Rightarrow> bool) \<Rightarrow> capstone list \<Rightarrow> capstone graphEntry list" where
  "elongateGraph isDigonal isPrismatic catalog =
     makePrismOpGraph (\<lambda>s. \<not> isDigonal s) isPrismatic Prism None catalog"

text \<open>
  \<open>pyramidOps(null)\<close>, the pair behind gyroelongate on pyramids: \<open>rightElongation\<close> is
  left at its default "antiprism".
\<close>

definition gyroelongPyramidGraph ::
  "(capstone \<Rightarrow> bool) \<Rightarrow> (capstone \<Rightarrow> bool) \<Rightarrow> capstone list \<Rightarrow> capstone graphEntry list" where
  "gyroelongPyramidGraph canGyroelongPrimary isPrismatic catalog =
     makePrismOpGraph canGyroelongPrimary isPrismatic Antiprism None catalog"

text \<open>\<open>cupolaOps(null)\<close>, the pair behind gyroelongate on cupolae and rotundae with one cap.\<close>

definition gyroelongCupolaGraph ::
  "(capstone \<Rightarrow> bool) \<Rightarrow> (capstone \<Rightarrow> bool) \<Rightarrow> (capstone \<Rightarrow> bool) \<Rightarrow> capstone list
     \<Rightarrow> capstone graphEntry list" where
  "gyroelongCupolaGraph canGyroelongSecondary isMonoCapstone isPrismatic catalog =
     makePrismOpGraph (\<lambda>s. canGyroelongSecondary s \<and> isMonoCapstone s) isPrismatic Antiprism None
       catalog"

text \<open>\<open>makeBicupolaPrismOp(leftElongation)\<close>: two entries per bicupola, one per twist.\<close>

definition makeBicupolaPrismOpGraph ::
  "(capstone \<Rightarrow> bool) \<Rightarrow> (capstone \<Rightarrow> bool) \<Rightarrow> (capstone \<Rightarrow> bool) \<Rightarrow> elongation option
     \<Rightarrow> capstone list \<Rightarrow> capstone graphEntry list" where
  "makeBicupolaPrismOpGraph canGyroelongSecondary isBi isGyro leftElongation catalog =
     concat (map (\<lambda>entry.
         map (\<lambda>tw. \<lparr>left = entry,
                     right = entry\<lparr>elongation := Some Antiprism,
                                   twist := Some (if isGyro entry then tw else oppositeTwist tw)\<rparr>,
                     options = Some \<lparr>optsLeft = twistOpts tw,
                                     optsRight = twistOpts (oppositeTwist tw)\<rparr>\<rparr>) twists)
       (filter (\<lambda>s. canGyroelongSecondary s \<and> isBi s \<and> elongation s = leftElongation) catalog))"

text \<open>
  \<open>turnPrismatic\<close>: every prism of the catalog that is not digonal leads to the Specs
  with the elongation antiprism.
\<close>

definition turnPrismaticGraph ::
  "(capstone \<Rightarrow> bool) \<Rightarrow> (capstone \<Rightarrow> bool) \<Rightarrow> capstone list \<Rightarrow> capstone graphEntry list" where
  "turnPrismaticGraph isPrism isDigonal catalog =
     map (\<lambda>entry. \<lparr>left = entry, right = entry\<lparr>elongation := Some Antiprism\<rparr>, options = None\<rparr>)
       (filter (\<lambda>s. isPrism s \<and> \<not> isDigonal s) catalog)"

text \<open>
  Two Specs that differ in the twist direction at most: the comparison under which the
  specification calls two Capstones equivalent.
\<close>

definition sameUpToTwist :: "capstone \<Rightarrow> capstone \<Rightarrow> bool" where
  "sameUpToTwist a b = (a\<lparr>twist := None\<rparr> = b\<lparr>twist := None\<rparr>)"

subsection \<open>The inputs of the pairs\<close>

text \<open>
  \<open>getPose\<close> of the pairs of prismOps.ts. \<open>makePrismOp\<close> and \<open>turnPrismatic\<close> declare
  \<open>getPose(side, forme)\<close> and \<open>makeBicupolaPrismOp\<close> declares
  \<open>getPose(side, forme, { right: { twist } })\<close>, and \<open>OpPair.apply\<close> calls
  \<open>getPose(solidForme, options)\<close>. In the first form \<open>forme\<close> is then the options object,
  on which \<open>getCapstonePose\<close> calls \<open>forme.baseBoundaries()\<close>, which a plain object does not
  have; in the second the third argument is undefined and cannot be destructured. Either
  way the call throws a TypeError, whatever its arguments.
\<close>

definition prismOpGetPose :: "('s, 'g) polyhedronForme \<Rightarrow> graphOpts \<Rightarrow> error + 'p" where
  "prismOpGetPose solidForme opts = Inl TypeError"

text \<open>
  \<open>toLeft\<close> of the pairs hands the forme, the result Specs and a twist to
  \<open>doPrismTransform\<close>, whose body rests on the absent CapstoneForme: a parameter. The
  bicupola pair reads the twist from the right options.
\<close>

definition twistOfOpts :: "jsObject \<Rightarrow> twist option" where
  "twistOfOpts ob =
     (if fmlookup ob ''twist'' = Some (JStr ''left'') then Some TwistLeft
      else if fmlookup ob ''twist'' = Some (JStr ''right'') then Some TwistRight
      else None)"

definition makePrismOp ::
  "(('s, 'g) polyhedronForme \<Rightarrow> 's \<Rightarrow> twist option \<Rightarrow> error + 'w) \<Rightarrow> elongation
     \<Rightarrow> 's graphEntry list \<Rightarrow> ('s, 'g, 'p, 'w) opPairInput" where
  "makePrismOp doPrismTransform rightElongation gr =
     \<lparr>graph = gr, middle = Inl Right, getPose = prismOpGetPose,
      toLeft = Some (\<lambda>forme opts res. doPrismTransform forme res
                      (if rightElongation = Prism then None else Some TwistLeft)),
      toRight = None\<rparr>"

definition turnPrismatic ::
  "(('s, 'g) polyhedronForme \<Rightarrow> 's \<Rightarrow> twist option \<Rightarrow> error + 'w)
     \<Rightarrow> 's graphEntry list \<Rightarrow> ('s, 'g, 'p, 'w) opPairInput" where
  "turnPrismatic doPrismTransform gr =
     \<lparr>graph = gr, middle = Inl Right, getPose = prismOpGetPose,
      toLeft = Some (\<lambda>forme opts res. doPrismTransform forme res (Some TwistLeft)),
      toRight = None\<rparr>"

definition makeBicupolaPrismOp ::
  "(('s, 'g) polyhedronForme \<Rightarrow> 's \<Rightarrow> twist option \<Rightarrow> error + 'w)
     \<Rightarrow> 's graphEntry list \<Rightarrow> ('s, 'g, 'p, 'w) opPairInput" where
  "makeBicupolaPrismOp doPrismTransform gr =
     \<lparr>graph = gr, middle = Inl Right, getPose = prismOpGetPose,
      toLeft = Some (\<lambda>forme opts res. doPrismTransform forme res (twistOfOpts (optsRight opts))),
      toRight = None\<rparr>"

subsection \<open>A catalog and collaborators, for evaluation\<close>

text \<open>
  Square pyramids, a square bicupola and the square prism of the catalog, and an instance
  of the absent predicates that reads them off the data.
\<close>

definition squarePyramid :: capstone where
  "squarePyramid =
     \<lparr>base = 4, primary = True, elongation = None, count = 1, gyrate = None, twist = None\<rparr>"

definition elongatedSquarePyramid :: capstone where
  "elongatedSquarePyramid = squarePyramid\<lparr>elongation := Some Prism\<rparr>"

definition gyroelongatedSquarePyramid :: capstone where
  "gyroelongatedSquarePyramid = squarePyramid\<lparr>elongation := Some Antiprism\<rparr>"

definition squareOrthobicupola :: capstone where
  "squareOrthobicupola =
     \<lparr>base = 4, primary = False, elongation = None, count = 2, gyrate = Some Ortho, twist = None\<rparr>"

definition squarePrism :: capstone where
  "squarePrism =
     \<lparr>base = 4, primary = True, elongation = Some Prism, count = 0, gyrate = None, twist = None\<rparr>"

definition capstoneCatalog :: "capstone list" where
  "capstoneCatalog =
     [squarePyramid, elongatedSquarePyramid, gyroelongatedSquarePyramid, squareOrthobicupola,
      squareOrthobicupola\<lparr>elongation := Some Antiprism, twist := Some TwistLeft\<rparr>,
      squareOrthobicupola\<lparr>elongation := Some Antiprism, twist := Some TwistRight\<rparr>,
      squarePrism, squarePrism\<lparr>elongation := Some Antiprism\<rparr>]"

definition isDigonalC :: "capstone \<Rightarrow> bool" where
  "isDigonalC s = (base s = 2)"

definition isPrismaticC :: "capstone \<Rightarrow> bool" where
  "isPrismaticC s = (count s = 0)"

definition isPrismC :: "capstone \<Rightarrow> bool" where
  "isPrismC s = (count s = 0 \<and> elongation s = Some Prism)"

definition canGyroelongPrimaryC :: "capstone \<Rightarrow> bool" where
  "canGyroelongPrimaryC s = (primary s \<and> base s \<noteq> 3)"

definition canGyroelongSecondaryC :: "capstone \<Rightarrow> bool" where
  "canGyroelongSecondaryC s = (\<not> primary s \<and> base s \<noteq> 2)"

definition isMonoC :: "capstone \<Rightarrow> bool" where
  "isMonoC s = (count s = 1)"

definition isBiC :: "capstone \<Rightarrow> bool" where
  "isBiC s = (count s = 2)"

definition isGyroC :: "capstone \<Rightarrow> bool" where
  "isGyroC s = (gyrate s = Some Gyro)"

text \<open>
  Collaborators that keep no coordinates and never throw: the geometry of a Specs is a
  tag that names it, aligning and moving vertices leave the tag alone, and two Specs are
  equivalent when they differ in the twist only.
\<close>

definition tagCollaborators :: "(capstone, capstone, unit, unit) collaborators" where
  "tagCollaborators =
     \<lparr>createForme = (\<lambda>s g. Inr \<lparr>formeSpecs = s, formeGeom = g\<rparr>),
      getGeometry = (\<lambda>s. Inr s),
      alignPolyhedron = (\<lambda>g from to. Inr g),
      withVertices = (\<lambda>g vs. Inr g),
      geomVertices = (\<lambda>g. ()),
      equivalent = sameUpToTwist\<rparr>"

definition tagTransform ::
  "(capstone, capstone) polyhedronForme \<Rightarrow> capstone \<Rightarrow> twist option \<Rightarrow> error + unit" where
  "tagTransform forme res tw = Inr ()"

definition elongatePair :: "(capstone, capstone, unit, unit) opPairInput" where
  "elongatePair =
     makePrismOp tagTransform Prism (elongateGraph isDigonalC isPrismaticC capstoneCatalog)"

definition gyroelongPyramidPair :: "(capstone, capstone, unit, unit) opPairInput" where
  "gyroelongPyramidPair =
     makePrismOp tagTransform Antiprism
       (gyroelongPyramidGraph canGyroelongPrimaryC isPrismaticC capstoneCatalog)"

definition gyroelongCupolaPair :: "(capstone, capstone, unit, unit) opPairInput" where
  "gyroelongCupolaPair =
     makePrismOp tagTransform Antiprism
       (gyroelongCupolaGraph canGyroelongSecondaryC isMonoC isPrismaticC capstoneCatalog)"

definition gyroelongBicupolaPair :: "(capstone, capstone, unit, unit) opPairInput" where
  "gyroelongBicupolaPair =
     makeBicupolaPrismOp tagTransform
       (makeBicupolaPrismOpGraph canGyroelongSecondaryC isBiC isGyroC None capstoneCatalog)"

text \<open>
  \<open>shorten\<close>:
  \<open>combineOps([_elongate, gyroelongPyramid, gyroelongCupola, gyroelongBicupola].map((op) => op.right))\<close>.
\<close>

definition shortenElongated ::
  "(capstone, capstone, jsObject, error + (capstone, unit) opResult) opInput" where
  "shortenElongated = makeOperation tagCollaborators Right elongatePair"

definition shortenGyroelongatedPyramid ::
  "(capstone, capstone, jsObject, error + (capstone, unit) opResult) opInput" where
  "shortenGyroelongatedPyramid = makeOperation tagCollaborators Right gyroelongPyramidPair"

definition shortenGyroelongatedCupola ::
  "(capstone, capstone, jsObject, error + (capstone, unit) opResult) opInput" where
  "shortenGyroelongatedCupola = makeOperation tagCollaborators Right gyroelongCupolaPair"

definition shortenGyroelongatedBicupola ::
  "(capstone, capstone, jsObject, error + (capstone, unit) opResult) opInput" where
  "shortenGyroelongatedBicupola = makeOperation tagCollaborators Right gyroelongBicupolaPair"

definition shortenOps ::
  "(capstone, capstone, jsObject, error + (capstone, unit) opResult) opInput list" where
  "shortenOps =
     [shortenElongated, shortenGyroelongatedPyramid, shortenGyroelongatedCupola,
      shortenGyroelongatedBicupola]"

text \<open>The solid a Specs of the catalog stands for: the forme on its own geometry.\<close>

definition solidOf :: "capstone \<Rightarrow> (capstone, capstone) polyhedronForme" where
  "solidOf s = \<lparr>formeSpecs = s, formeGeom = s\<rparr>"

text \<open>Entries of the graphs over the catalog.\<close>

definition elongateSquareEntry :: "capstone graphEntry" where
  "elongateSquareEntry = \<lparr>left = squarePyramid, right = elongatedSquarePyramid, options = None\<rparr>"

definition leftTwistEntry :: "capstone graphEntry" where
  "leftTwistEntry =
     \<lparr>left = squareOrthobicupola,
      right = squareOrthobicupola\<lparr>elongation := Some Antiprism, twist := Some TwistRight\<rparr>,
      options = Some \<lparr>optsLeft = twistOpts TwistLeft, optsRight = twistOpts TwistRight\<rparr>\<rparr>"

definition rightTwistEntry :: "capstone graphEntry" where
  "rightTwistEntry =
     \<lparr>left = squareOrthobicupola,
      right = squareOrthobicupola\<lparr>elongation := Some Antiprism, twist := Some TwistLeft\<rparr>,
      options = Some \<lparr>optsLeft = twistOpts TwistRight, optsRight = twistOpts TwistLeft\<rparr>\<rparr>"

definition turnSquarePrismEntry :: "capstone graphEntry" where
  "turnSquarePrismEntry =
     \<lparr>left = squarePrism, right = squarePrism\<lparr>elongation := Some Antiprism\<rparr>, options = None\<rparr>"

section \<open>augment.js: the rotation axis of doAugment\<close>

text \<open>
  The vectors of augment.js are Vec3D objects of the library toxiclibsjs. Their methods
  are modelled by what they compute, on real coordinates: \<open>cross\<close>, \<open>sub\<close>,
  \<open>magnitude\<close> (the Euclidean length) and \<open>getNormalized\<close>, a copy scaled by the inverse
  of its magnitude when the magnitude is positive and an unchanged copy otherwise, so the
  zero vector stays the zero vector. The names \<open>cross\<close> and \<open>sub\<close> belong to the integer
  vectors above; the real ones are \<open>crossVec3D\<close> and \<open>subVec3D\<close>. \<open>PRECISION\<close> is the
  constant of linAlg.js.
\<close>

type_synonym vec3D = "real \<times> real \<times> real"



fun magnitude :: "vec3D \<Rightarrow> real" where
  "magnitude (x, y, z) = sqrt (x * x + y * y + z * z)"

fun getNormalized :: "vec3D \<Rightarrow> vec3D" where
  "getNormalized (x, y, z) =
     (let mag = sqrt (x * x + y * y + z * z)
      in if mag > 0 then (x * (1 / mag), y * (1 / mag), z * (1 / mag)) else (x, y, z))"



section \<open>Properties of the modification count\<close>

text \<open>
  C10. For a count \<open>c\<close> in 0..3: \<open>inc c\<close> throws exactly when \<open>c = 3\<close> and otherwise returns
  \<open>c + 1\<close>; \<open>dec c\<close> throws exactly when \<open>c = 0\<close> and otherwise returns \<open>c - 1\<close>; decrementing
  an incremented count and incrementing a decremented count give the count back; every
  returned count is again in 0..3.
\<close>

theorem inc_dec_count:
  assumes "isCount c"
  shows "((\<exists>e. inc c = Inl e) \<longleftrightarrow> c = 3)
       \<and> (c \<noteq> 3 \<longrightarrow> inc c = Inr (c + 1))
       \<and> ((\<exists>e. dec c = Inl e) \<longleftrightarrow> c = 0)
       \<and> (c \<noteq> 0 \<longrightarrow> dec c = Inr (c - 1))
       \<and> (c < 3 \<longrightarrow> andThen (inc c) dec = Inr c)
       \<and> (c > 0 \<longrightarrow> andThen (dec c) inc = Inr c)
       \<and> (\<forall>r. inc c = Inr r \<or> dec c = Inr r \<longrightarrow> isCount r)"
  using assms by (auto simp: isCount_def inc_def dec_def andThen_def)

theorem inc_dec_count_witness:
  "isCount 2 \<and> inc 2 = Inr 3 \<and> dec 2 = Inr 1 \<and> andThen (inc 2) dec = Inr 2
     \<and> andThen (dec 2) inc = Inr 2 \<and> inc 3 = Inl (CountTooHigh 3) \<and> dec 0 = Inl (CountTooLow 0)"
proof -
  have h: "isCount 2" by (simp add: isCount_def)
  show ?thesis using h inc_dec_count [OF h]
    by (simp add: inc_def dec_def)
qed

section \<open>Helper facts\<close>

lemmas mesh_defs = mkFace_def mkEdge_def mkCap_def mkVertex_def
  diminishedIcosahedron_def diminishedIcosahedronFaces_def diminishedIcosahedronCaps_def
  diminishedIcosahedronPoints_def diminishedIcosahedronSpecs_def
  augmentedPrism_def augmentedPrismFaces_def augmentedPrismCap_def augmentedPrismPoints_def
  augmentedPrismSpecs_def

lemma everyE_total: "everyE (\<lambda>x. Inr (q x)) xs = Inr (list_all q xs)"
  by (induction xs) auto

lemma filterE_total: "filterE (\<lambda>x. Inr (q x)) xs = Inr (filter q xs)"
  by (induction xs) auto

lemma agreeOnSquare_pair: "agreeOnSquare [a, b] = ((a = 4) = (b = 4))"
  by (simp add: agreeOnSquare_def)

lemma notOnCapBoundary_False:
  "c \<in> set cs \<Longrightarrow> f' \<in> set (adjacentFaces g (boundary c)) \<Longrightarrow> equals f' fc
     \<Longrightarrow> \<not> notOnCapBoundary g fc cs"
  by (auto simp: notOnCapBoundary_def list_all_iff)

lemma wellFormed_diminishedIcosahedron: "wellFormed diminishedIcosahedron"
  by (simp add: wellFormed_def edgeInTable_def numSides_def mesh_defs)

lemma wellFormed_augmentedPrism: "wellFormed augmentedPrism"
  by (simp add: wellFormed_def edgeInTable_def numSides_def mesh_defs)

section \<open>Properties of the Forme layer\<close>

text \<open>
  C7. \<open>CompositeForme.create\<close> returns the variant of the first family predicate that
  holds of the Specs, in the order augmented prism, augmented classical, diminished solid,
  gyrate solid, over the given Specs and geometry; it throws exactly when none of the four
  predicates holds.
\<close>

theorem create_dispatch:
  "(create s g = Inr (AugmentedPrismForme s g) \<longleftrightarrow> isAugmentedPrism s)
 \<and> (create s g = Inr (AugmentedClassicalForme s g)
       \<longleftrightarrow> \<not> isAugmentedPrism s \<and> isAugmentedClassical s)
 \<and> (create s g = Inr (DiminishedSolidForme s g)
       \<longleftrightarrow> \<not> isAugmentedPrism s \<and> \<not> isAugmentedClassical s \<and> isDiminishedSolid s)
 \<and> (create s g = Inr (GyrateSolidForme s g)
       \<longleftrightarrow> \<not> isAugmentedPrism s \<and> \<not> isAugmentedClassical s \<and> \<not> isDiminishedSolid s
           \<and> isGyrateSolid s)
 \<and> ((\<exists>e. create s g = Inl e)
       \<longleftrightarrow> \<not> isAugmentedPrism s \<and> \<not> isAugmentedClassical s \<and> \<not> isDiminishedSolid s
           \<and> \<not> isGyrateSolid s)
 \<and> (\<forall>f. create s g = Inr f \<longrightarrow> familyPredicate f s \<and> specs f = s \<and> geom f = g)"
  by (auto simp: create_def)

theorem create_dispatch_witness:
  "create diminishedIcosahedronSpecs diminishedIcosahedron
     = Inr (DiminishedSolidForme diminishedIcosahedronSpecs diminishedIcosahedron)
   \<and> isDiminishedSolid diminishedIcosahedronSpecs
   \<and> create (diminishedIcosahedronSpecs\<lparr>isDiminishedSolid := False\<rparr>) diminishedIcosahedron
     = Inl (InvalidCompositeSpecs ''diminished icosahedron'')"
  using create_dispatch [of diminishedIcosahedronSpecs diminishedIcosahedron]
  by (simp add: diminishedIcosahedronSpecs_def create_def)

text \<open>
  C6. \<open>isGyrate(cap)\<close> is true if and only if, at every edge of the cap's boundary, the
  edge's own face and its twin's face agree on being 4-sided; so its value does not change
  when the boundary is relabelled cyclically, started at another edge.
\<close>

theorem isGyrate_agreement:
  "(isGyrate g c
      \<longleftrightarrow> (\<forall>e \<in> set (edges (boundary c)).
             (numSides (edgeFace g e) = 4) = (numSides (twinFace g e) = 4)))
   \<and> isGyrate g (relabel n c) = isGyrate g c"
  by (simp add: isGyrate_def relabel_def edgeAdjacentFaces_def agreeOnSquare_pair list_all_iff)

theorem isGyrate_agreement_witness:
  "isGyrate diminishedIcosahedron (caps diminishedIcosahedron ! 5)
   \<and> isGyrate diminishedIcosahedron (relabel 2 (caps diminishedIcosahedron ! 5))
   \<and> \<not> isGyrate augmentedPrism augmentedPrismCap
   \<and> \<not> isGyrate augmentedPrism (relabel 1 augmentedPrismCap)"
  using isGyrate_agreement [of diminishedIcosahedron "caps diminishedIcosahedron ! 5" 2]
    isGyrate_agreement [of augmentedPrism augmentedPrismCap 1]
  by (simp add: edgeFace_def twinFace_def numSides_def mesh_defs)

text \<open>
  C5. \<open>alignment(site)\<close> returns undefined when \<open>hasAlignment()\<close> is false. When it is
  true and the solid has a single modification, the result is "para" exactly when the
  site's normal is the inverse of that modification's normal and "meta" otherwise. For an
  AugmentedPrismForme \<open>hasAlignment()\<close> holds when the Specs is mono and the source prism
  is secondary.
\<close>

theorem alignment_classification:
  "(\<not> hasAlignment f \<longrightarrow> alignment G f site = Inr None)
 \<and> (hasAlignment f \<and> modifications f = Inr [m] \<longrightarrow>
      alignment G f site
        = Inr (Some (if isInverse G (normal G site) (normal G m) then Para else Meta)))
 \<and> hasAlignment (AugmentedPrismForme s g) = (isMono s \<and> isSecondary (sourcePrism s))"
  by (simp add: alignment_def andThen_def getSingle_def)

theorem alignment_classification_witness:
  "hasAlignment (DiminishedSolidForme diminishedIcosahedronSpecs diminishedIcosahedron)
   \<and> modifications (DiminishedSolidForme diminishedIcosahedronSpecs diminishedIcosahedron)
       = Inr [FaceBase (faces diminishedIcosahedron ! 0)]
   \<and> alignment exactGeometry (DiminishedSolidForme diminishedIcosahedronSpecs diminishedIcosahedron)
       (CapBase (caps diminishedIcosahedron ! 5)) = Inr (Some Para)
   \<and> \<not> hasAlignment (AugmentedPrismForme augmentedPrismSpecs augmentedPrism)
   \<and> alignment exactGeometry (AugmentedPrismForme augmentedPrismSpecs augmentedPrism)
       (FaceBase (faces augmentedPrism ! 2)) = Inr None"
proof -
  let ?f = "DiminishedSolidForme diminishedIcosahedronSpecs diminishedIcosahedron"
  have h1: "hasAlignment ?f" by (simp add: diminishedIcosahedronSpecs_def)
  have h2: "modifications ?f = Inr [FaceBase (faces diminishedIcosahedron ! 0)]"
    by (simp add: diminishedFaces_def isDiminishedFace_def largestFace_def andThen_def
        numSides_def mesh_defs)
  have h3: "isInverse exactGeometry (normal exactGeometry (CapBase (caps diminishedIcosahedron ! 5)))
              (normal exactGeometry (FaceBase (faces diminishedIcosahedron ! 0)))"
    by (simp add: exactGeometry_def polygonNormal_def vectors_def mesh_defs)
  have h4: "\<not> hasAlignment (AugmentedPrismForme augmentedPrismSpecs augmentedPrism)"
    by (simp add: augmentedPrismSpecs_def)
  from alignment_classification [of ?f exactGeometry "CapBase (caps diminishedIcosahedron ! 5)"
        "FaceBase (faces diminishedIcosahedron ! 0)"]
    alignment_classification [of "AugmentedPrismForme augmentedPrismSpecs augmentedPrism"
        exactGeometry "FaceBase (faces augmentedPrism ! 2)"]
    h1 h2 h3 h4
  show ?thesis by simp
qed

lemma canAugment_False_across_boundary:
  assumes "f = AugmentedPrismForme s g \<or> f = AugmentedClassicalForme s g
             \<or> (f = DiminishedSolidForme s g \<and> isAugmented s)"
    and "formeCaps f = Inr cs" and "c \<in> set cs"
    and "f' \<in> set (adjacentFaces g (boundary c))" and "equals f' fc"
  shows "canAugment f fc = Inr False"
proof -
  have nb: "\<not> notOnCapBoundary g fc cs"
    using assms(3-5) by (rule notOnCapBoundary_False)
  from assms(1) consider (p) "f = AugmentedPrismForme s g" | (c) "f = AugmentedClassicalForme s g"
    | (d) "f = DiminishedSolidForme s g" "isAugmented s" by blast
  then show ?thesis
  proof cases
    case p
    with assms(2) nb show ?thesis by (simp add: andThen_def)
  next
    case c
    from assms(2) have "\<exists>b. isSourceFace f fc = Inr b"
      by (simp add: isSourceFace_def capInnerVertIndices_def andThen_def everyE_total)
    then have "\<exists>b. isMainFace f fc = Inr b"
      by (auto simp: isMainFace_def andThen_def)
    then obtain b where "isMainFace f fc = Inr b" ..
    with c assms(2) nb show ?thesis by (simp add: andThen_def)
  next
    case d
    then show ?thesis by simp
  qed
qed

text \<open>
  C1, as the code has it. For an AugmentedPrismForme and an AugmentedClassicalForme,
  \<open>canAugment(face)\<close> is false for every face across a boundary edge of a cap of the
  forme's \<open>caps()\<close>; for a DiminishedSolidForme it is false for such a face (as for every
  face) when the Specs is augmented. The caps play no part otherwise: a
  DiminishedSolidForme whose Specs is not augmented accepts every diminished face, and a
  GyrateSolidForme accepts exactly the diminished faces.
\<close>

theorem canAugment_cap_boundary:
  "((f = AugmentedPrismForme s g \<or> f = AugmentedClassicalForme s g
       \<or> (f = DiminishedSolidForme s g \<and> isAugmented s))
     \<and> formeCaps f = Inr cs \<and> c \<in> set cs
     \<and> f' \<in> set (adjacentFaces g (boundary c)) \<and> equals f' fc
     \<longrightarrow> canAugment f fc = Inr False)
 \<and> (\<not> isAugmented s \<and> isDiminishedFace (DiminishedSolidForme s g) fc = Inr True
     \<longrightarrow> canAugment (DiminishedSolidForme s g) fc = Inr True)
 \<and> canAugment (GyrateSolidForme s g) fc = isDiminishedFace (GyrateSolidForme s g) fc"
proof (intro conjI impI)
  assume "(f = AugmentedPrismForme s g \<or> f = AugmentedClassicalForme s g
       \<or> (f = DiminishedSolidForme s g \<and> isAugmented s))
     \<and> formeCaps f = Inr cs \<and> c \<in> set cs
     \<and> f' \<in> set (adjacentFaces g (boundary c)) \<and> equals f' fc"
  then show "canAugment f fc = Inr False"
    using canAugment_False_across_boundary [of f s g cs c f' fc] by blast
next
  assume "\<not> isAugmented s \<and> isDiminishedFace (DiminishedSolidForme s g) fc = Inr True"
  then show "canAugment (DiminishedSolidForme s g) fc = Inr True"
    by (simp add: andThen_def)
next
  show "canAugment (GyrateSolidForme s g) fc = isDiminishedFace (GyrateSolidForme s g) fc"
    by simp
qed

theorem canAugment_cap_boundary_witness:
  "formeCaps (AugmentedPrismForme augmentedPrismSpecs augmentedPrism) = Inr [augmentedPrismCap]
   \<and> augmentedPrismCap \<in> set [augmentedPrismCap]
   \<and> faces augmentedPrism ! 2 \<in> set (adjacentFaces augmentedPrism (boundary augmentedPrismCap))
   \<and> equals (faces augmentedPrism ! 2) (faces augmentedPrism ! 2)
   \<and> numSides (faces augmentedPrism ! 2) = 4
   \<and> canAugment (AugmentedPrismForme augmentedPrismSpecs augmentedPrism) (faces augmentedPrism ! 2)
       = Inr False
   \<and> \<not> isAugmented diminishedIcosahedronSpecs
   \<and> isDiminishedFace (DiminishedSolidForme diminishedIcosahedronSpecs diminishedIcosahedron)
        (faces diminishedIcosahedron ! 0) = Inr True
   \<and> canAugment (DiminishedSolidForme diminishedIcosahedronSpecs diminishedIcosahedron)
        (faces diminishedIcosahedron ! 0) = Inr True"
proof -
  let ?f = "AugmentedPrismForme augmentedPrismSpecs augmentedPrism"
  let ?sq = "faces augmentedPrism ! 2"
  let ?pent = "faces diminishedIcosahedron ! 0"
  have h1: "?f = AugmentedPrismForme augmentedPrismSpecs augmentedPrism
              \<or> ?f = AugmentedClassicalForme augmentedPrismSpecs augmentedPrism
              \<or> (?f = DiminishedSolidForme augmentedPrismSpecs augmentedPrism
                   \<and> isAugmented augmentedPrismSpecs)" by simp
  have h2: "formeCaps ?f = Inr [augmentedPrismCap]" by (simp add: augmentedPrism_def)
  have h3: "augmentedPrismCap \<in> set [augmentedPrismCap]" by simp
  have h4: "?sq \<in> set (adjacentFaces augmentedPrism (boundary augmentedPrismCap))"
    by (simp add: adjacentFaces_def twinFace_def mesh_defs)
  have h5: "equals ?sq ?sq" by (simp add: equals_def)
  have h6: "numSides ?sq = 4" by (simp add: numSides_def mesh_defs)
  have h7: "\<not> isAugmented diminishedIcosahedronSpecs"
    by (simp add: diminishedIcosahedronSpecs_def)
  have h8: "isDiminishedFace (DiminishedSolidForme diminishedIcosahedronSpecs diminishedIcosahedron)
              ?pent = Inr True"
    by (simp add: isDiminishedFace_def largestFace_def andThen_def numSides_def mesh_defs)
  note T1 = canAugment_cap_boundary [of ?f augmentedPrismSpecs augmentedPrism "[augmentedPrismCap]"
      augmentedPrismCap ?sq ?sq]
  note T2 = canAugment_cap_boundary [of ?f diminishedIcosahedronSpecs diminishedIcosahedron
      "[augmentedPrismCap]" augmentedPrismCap ?sq ?pent]
  from T1 h1 h2 h3 h4 h5 have r1: "canAugment ?f ?sq = Inr False" by blast
  from T2 h7 h8
  have r2: "canAugment (DiminishedSolidForme diminishedIcosahedronSpecs diminishedIcosahedron) ?pent
              = Inr True" by blast
  from r1 r2 h2 h3 h4 h5 h6 h7 h8 show ?thesis by blast
qed

text \<open>
  The diminished icosahedron as a DiminishedSolidForme: the pentagon, face 0, lies across
  a boundary edge of the cap at vertex 5 (and of four more caps), and \<open>canAugment\<close> of
  it is true.
\<close>

theorem canAugment_diminished_counterexample:
  "faces diminishedIcosahedron ! 0
       \<in> set (adjacentFaces diminishedIcosahedron (boundary (caps diminishedIcosahedron ! 0)))
   \<and> formeCaps (DiminishedSolidForme diminishedIcosahedronSpecs diminishedIcosahedron)
       = Inr (caps diminishedIcosahedron)
   \<and> canAugment (DiminishedSolidForme diminishedIcosahedronSpecs diminishedIcosahedron)
        (faces diminishedIcosahedron ! 0) = Inr True"
  by (simp add: adjacentFaces_def twinFace_def numSides_def
      isDiminishedFace_def largestFace_def andThen_def mesh_defs)

section \<open>Properties of the operation engine\<close>

subsection \<open>Helper facts\<close>

lemma find_None_ball: "(List.find P xs = None) = (\<forall>x \<in> set xs. \<not> P x)"
  by (induction xs) auto

lemma find_Some_holds: "List.find P xs = Some x \<Longrightarrow> x \<in> set xs \<and> P x"
  by (induction xs) (auto split: if_splits)

lemma find_ex_Some: "x \<in> set xs \<Longrightarrow> P x \<Longrightarrow> \<exists>y. List.find P xs = Some y"
  by (induction xs) auto

lemma find_Some_stronger:
  "List.find P xs = Some x \<Longrightarrow> (\<And>y. y \<in> set xs \<Longrightarrow> Q y \<Longrightarrow> P y) \<Longrightarrow> Q x \<Longrightarrow> List.find Q xs = Some x"
  by (induction xs) (auto split: if_splits)

lemma find_cong_set: "(\<And>y. y \<in> set xs \<Longrightarrow> P y = Q y) \<Longrightarrow> List.find P xs = List.find Q xs"
  by (induction xs) auto

lemma isMatch_refl: "isMatch ob ob"
  by (simp add: isMatch_def fmpred_iff)

lemma isMatch_empty: "isMatch ob fmempty"
  by (simp add: isMatch_def)

lemma getOpposite_sat:
  assumes "entry \<in> set gr" and "matchesEntry sd sp opts entry"
    and "\<forall>e' \<in> set gr. matchesEntry sd sp opts e' \<longrightarrow> Q (entrySide e' (oppositeSide sd))"
  shows "\<exists>target. getOpposite gr sd sp opts = Inr target \<and> Q target"
proof -
  from assms(1,2) obtain y where y: "List.find (matchesEntry sd sp opts) gr = Some y"
    using find_ex_Some by fastforce
  then have "y \<in> set gr \<and> matchesEntry sd sp opts y" by (rule find_Some_holds)
  with assms(3) have "Q (entrySide y (oppositeSide sd))" by blast
  with y show ?thesis
    by (simp add: getOpposite_def getEntry_def findEntry_def andThen_def)
qed

lemma getOpposite_agree:
  assumes "entry \<in> set gr" and "matchesEntry sd sp opts entry"
    and "\<forall>e' \<in> set gr. matchesEntry sd sp opts e' \<longrightarrow> entrySide e' (oppositeSide sd) = target"
  shows "getOpposite gr sd sp opts = Inr target"
  using getOpposite_sat [OF assms(1,2), of "\<lambda>t. t = target"] assms(3) by auto

lemma getOpposite_none:
  assumes "\<forall>e' \<in> set gr. entrySide e' sd \<noteq> sp"
  shows "getOpposite gr sd sp opts = Inl (CouldNotFindEntry sd)"
proof -
  from assms have "List.find (matchesEntry sd sp opts) gr = None"
    by (simp add: find_None_ball matchesEntry_def)
  then show ?thesis
    by (simp add: getOpposite_def getEntry_def findEntry_def andThen_def)
qed

lemma matchesEntry_self: "matchesEntry sd (entrySide entry sd) (Some (sideOptions entry sd)) entry"
  by (simp add: matchesEntry_def orEmpty_def isMatch_refl)

lemma elongation_restore:
  "elongation (a::capstone) = elongation b \<Longrightarrow> a\<lparr>elongation := x\<rparr> = b\<lparr>elongation := x\<rparr> \<Longrightarrow> a = b"
  by (cases a, cases b) simp

lemma elongation_twist_restore:
  "elongation (a::capstone) = elongation b
     \<Longrightarrow> a\<lparr>elongation := x, twist := t\<rparr> = b\<lparr>elongation := x, twist := t'\<rparr>
     \<Longrightarrow> sameUpToTwist a b"
  by (cases a, cases b) (simp add: sameUpToTwist_def)

lemma twistValue_inj: "twistValue a = twistValue b \<longleftrightarrow> a = b"
  by (cases a; cases b) simp_all

lemma isMatch_twistOpts: "isMatch (twistOpts a) (twistOpts b) = (a = b)"
  by (auto simp: isMatch_def twistOpts_def fmpred_iff twistValue_inj split: if_splits)

lemma oppositeTwist_inj: "oppositeTwist a = oppositeTwist b \<longleftrightarrow> a = b"
  by (cases a; cases b) simp_all

subsection \<open>The entries of the graphs of prismOps.ts\<close>

lemma makePrismOpGraph_entry:
  "entry \<in> set (makePrismOpGraph query isPrismatic re le catalog) \<Longrightarrow>
     left entry = (right entry)\<lparr>elongation := le\<rparr> \<and> elongation (right entry) = Some re
     \<and> options entry = None"
  by (auto simp: makePrismOpGraph_def)

lemma makePrismOp_round_trip:
  assumes "entry \<in> set (makePrismOpGraph query isPrismatic re le catalog)"
  shows "getOpposite (makePrismOpGraph query isPrismatic re le catalog) Left (left entry)
           (Some (sideOptions entry Left)) = Inr (right entry)"
    and "getOpposite (makePrismOpGraph query isPrismatic re le catalog) Right (right entry)
           (Some (sideOptions entry Right)) = Inr (left entry)"
proof -
  let ?G = "makePrismOpGraph query isPrismatic re le catalog"
  note g = makePrismOpGraph_entry [OF assms]
  have aL: "\<forall>e' \<in> set ?G. matchesEntry Left (left entry) (Some (sideOptions entry Left)) e'
              \<longrightarrow> entrySide e' (oppositeSide Left) = right entry"
  proof (intro ballI impI)
    fix e' assume e': "e' \<in> set ?G"
      and m: "matchesEntry Left (left entry) (Some (sideOptions entry Left)) e'"
    note g' = makePrismOpGraph_entry [OF e']
    from m have "left e' = left entry" by (simp add: matchesEntry_def)
    with g g' have "(right e')\<lparr>elongation := le\<rparr> = (right entry)\<lparr>elongation := le\<rparr>" by simp
    moreover from g g' have "elongation (right e') = elongation (right entry)" by simp
    ultimately have "right e' = right entry" by (rule elongation_restore [rotated])
    then show "entrySide e' (oppositeSide Left) = right entry" by simp
  qed
  have aR: "\<forall>e' \<in> set ?G. matchesEntry Right (right entry) (Some (sideOptions entry Right)) e'
              \<longrightarrow> entrySide e' (oppositeSide Right) = left entry"
  proof (intro ballI impI)
    fix e' assume e': "e' \<in> set ?G"
      and m: "matchesEntry Right (right entry) (Some (sideOptions entry Right)) e'"
    note g' = makePrismOpGraph_entry [OF e']
    from m have "right e' = right entry" by (simp add: matchesEntry_def)
    with g g' have "left e' = left entry" by simp
    then show "entrySide e' (oppositeSide Right) = left entry" by simp
  qed
  from getOpposite_agree [OF assms matchesEntry_self [of Left entry, simplified] aL]
  show "getOpposite ?G Left (left entry) (Some (sideOptions entry Left)) = Inr (right entry)" .
  from getOpposite_agree [OF assms matchesEntry_self [of Right entry, simplified] aR]
  show "getOpposite ?G Right (right entry) (Some (sideOptions entry Right)) = Inr (left entry)" .
qed

lemma turnPrismaticGraph_entry:
  "entry \<in> set (turnPrismaticGraph isPrism isDigonal catalog) \<Longrightarrow>
     right entry = (left entry)\<lparr>elongation := Some Antiprism\<rparr> \<and> isPrism (left entry)
     \<and> options entry = None"
  by (auto simp: turnPrismaticGraph_def)

lemma turnPrismatic_round_trip:
  assumes "entry \<in> set (turnPrismaticGraph isPrism isDigonal catalog)"
    and prism: "\<forall>s. isPrism s \<longrightarrow> elongation s = Some Prism"
  shows "getOpposite (turnPrismaticGraph isPrism isDigonal catalog) Left (left entry)
           (Some (sideOptions entry Left)) = Inr (right entry)"
    and "getOpposite (turnPrismaticGraph isPrism isDigonal catalog) Right (right entry)
           (Some (sideOptions entry Right)) = Inr (left entry)"
proof -
  let ?G = "turnPrismaticGraph isPrism isDigonal catalog"
  note g = turnPrismaticGraph_entry [OF assms(1)]
  have aL: "\<forall>e' \<in> set ?G. matchesEntry Left (left entry) (Some (sideOptions entry Left)) e'
              \<longrightarrow> entrySide e' (oppositeSide Left) = right entry"
  proof (intro ballI impI)
    fix e' assume e': "e' \<in> set ?G"
      and m: "matchesEntry Left (left entry) (Some (sideOptions entry Left)) e'"
    note g' = turnPrismaticGraph_entry [OF e']
    from m have "left e' = left entry" by (simp add: matchesEntry_def)
    with g g' have "right e' = right entry" by simp
    then show "entrySide e' (oppositeSide Left) = right entry" by simp
  qed
  have aR: "\<forall>e' \<in> set ?G. matchesEntry Right (right entry) (Some (sideOptions entry Right)) e'
              \<longrightarrow> entrySide e' (oppositeSide Right) = left entry"
  proof (intro ballI impI)
    fix e' assume e': "e' \<in> set ?G"
      and m: "matchesEntry Right (right entry) (Some (sideOptions entry Right)) e'"
    note g' = turnPrismaticGraph_entry [OF e']
    from m have "right e' = right entry" by (simp add: matchesEntry_def)
    with g g' have eq: "(left e')\<lparr>elongation := Some Antiprism\<rparr>
                          = (left entry)\<lparr>elongation := Some Antiprism\<rparr>" by simp
    from g g' prism have "elongation (left e') = elongation (left entry)" by simp
    from this eq have "left e' = left entry" by (rule elongation_restore)
    then show "entrySide e' (oppositeSide Right) = left entry" by simp
  qed
  from getOpposite_agree [OF assms(1) matchesEntry_self [of Left entry, simplified] aL]
  show "getOpposite ?G Left (left entry) (Some (sideOptions entry Left)) = Inr (right entry)" .
  from getOpposite_agree [OF assms(1) matchesEntry_self [of Right entry, simplified] aR]
  show "getOpposite ?G Right (right entry) (Some (sideOptions entry Right)) = Inr (left entry)" .
qed

lemma bicupolaGraph_entry:
  assumes "entry \<in> set (makeBicupolaPrismOpGraph canGyroelong isBi isGyro le catalog)"
  shows "\<exists>tw. elongation (left entry) = le
           \<and> right entry = (left entry)\<lparr>elongation := Some Antiprism,
                 twist := Some (if isGyro (left entry) then tw else oppositeTwist tw)\<rparr>
           \<and> options entry = Some \<lparr>optsLeft = twistOpts tw, optsRight = twistOpts (oppositeTwist tw)\<rparr>"
  using assms by (auto simp: makeBicupolaPrismOpGraph_def)

lemma bicupola_round_trip:
  assumes "entry \<in> set (makeBicupolaPrismOpGraph canGyroelong isBi isGyro le catalog)"
  shows "getOpposite (makeBicupolaPrismOpGraph canGyroelong isBi isGyro le catalog) Left
           (left entry) (Some (sideOptions entry Left)) = Inr (right entry)"
    and "\<exists>sp. getOpposite (makeBicupolaPrismOpGraph canGyroelong isBi isGyro le catalog) Right
                (right entry) (Some (sideOptions entry Right)) = Inr sp
              \<and> sameUpToTwist sp (left entry)"
proof -
  let ?G = "makeBicupolaPrismOpGraph canGyroelong isBi isGyro le catalog"
  from bicupolaGraph_entry [OF assms] obtain tw where
    g: "elongation (left entry) = le"
       "right entry = (left entry)\<lparr>elongation := Some Antiprism,
                 twist := Some (if isGyro (left entry) then tw else oppositeTwist tw)\<rparr>"
       "options entry = Some \<lparr>optsLeft = twistOpts tw, optsRight = twistOpts (oppositeTwist tw)\<rparr>"
    by blast
  have sL: "sideOptions entry Left = twistOpts tw"
    and sR: "sideOptions entry Right = twistOpts (oppositeTwist tw)"
    using g(3) by (simp_all add: sideOptions_def orEmpty_def)
  have aL: "\<forall>e' \<in> set ?G. matchesEntry Left (left entry) (Some (sideOptions entry Left)) e'
              \<longrightarrow> entrySide e' (oppositeSide Left) = right entry"
  proof (intro ballI impI)
    fix e' assume e': "e' \<in> set ?G"
      and m: "matchesEntry Left (left entry) (Some (sideOptions entry Left)) e'"
    from bicupolaGraph_entry [OF e'] obtain tw' where
      g': "right e' = (left e')\<lparr>elongation := Some Antiprism,
                 twist := Some (if isGyro (left e') then tw' else oppositeTwist tw')\<rparr>"
          "options e' = Some \<lparr>optsLeft = twistOpts tw', optsRight = twistOpts (oppositeTwist tw')\<rparr>"
      by blast
    from m have l: "left e' = left entry" by (simp add: matchesEntry_def)
    from m g'(2) sL have "tw' = tw"
      by (simp add: matchesEntry_def sideOptions_def orEmpty_def isMatch_twistOpts)
    with l g(2) g'(1) have "right e' = right entry" by simp
    then show "entrySide e' (oppositeSide Left) = right entry" by simp
  qed
  have aR: "\<forall>e' \<in> set ?G. matchesEntry Right (right entry) (Some (sideOptions entry Right)) e'
              \<longrightarrow> sameUpToTwist (entrySide e' (oppositeSide Right)) (left entry)"
  proof (intro ballI impI)
    fix e' assume e': "e' \<in> set ?G"
      and m: "matchesEntry Right (right entry) (Some (sideOptions entry Right)) e'"
    from bicupolaGraph_entry [OF e'] obtain tw' where
      g': "elongation (left e') = le"
          "right e' = (left e')\<lparr>elongation := Some Antiprism,
                 twist := Some (if isGyro (left e') then tw' else oppositeTwist tw')\<rparr>"
      by blast
    from m have "right e' = right entry" by (simp add: matchesEntry_def)
    with g(2) g'(2) have eq: "(left e')\<lparr>elongation := Some Antiprism,
                 twist := Some (if isGyro (left e') then tw' else oppositeTwist tw')\<rparr>
         = (left entry)\<lparr>elongation := Some Antiprism,
                 twist := Some (if isGyro (left entry) then tw else oppositeTwist tw)\<rparr>" by simp
    from g(1) g'(1) have "elongation (left e') = elongation (left entry)" by simp
    from this eq have "sameUpToTwist (left e') (left entry)" by (rule elongation_twist_restore)
    then show "sameUpToTwist (entrySide e' (oppositeSide Right)) (left entry)" by simp
  qed
  from getOpposite_agree [OF assms matchesEntry_self [of Left entry, simplified] aL]
  show "getOpposite ?G Left (left entry) (Some (sideOptions entry Left)) = Inr (right entry)" .
  from getOpposite_sat [OF assms matchesEntry_self [of Right entry, simplified],
      of "\<lambda>sp. sameUpToTwist sp (left entry)"] aR
  show "\<exists>sp. getOpposite ?G Right (right entry) (Some (sideOptions entry Right)) = Inr sp
              \<and> sameUpToTwist sp (left entry)" by blast
qed

lemma elongate_not_applicable:
  assumes "elongation sp \<noteq> None"
  shows "getOpposite (elongateGraph isDigonal isPrismatic catalog) Left sp opts
           = Inl (CouldNotFindEntry Left)"
proof -
  have "\<forall>e' \<in> set (elongateGraph isDigonal isPrismatic catalog). entrySide e' Left \<noteq> sp"
  proof
    fix e' assume "e' \<in> set (elongateGraph isDigonal isPrismatic catalog)"
    then have "elongation (left e') = None"
      using makePrismOpGraph_entry [of e'] by (simp add: elongateGraph_def)
    with assms show "entrySide e' Left \<noteq> sp" by auto
  qed
  then show ?thesis by (rule getOpposite_none)
qed

subsection \<open>The entry lookup of an operation pair\<close>




subsection \<open>Evaluation of the graphs over the catalog\<close>

lemmas catalog_defs = capstoneCatalog_def squarePyramid_def elongatedSquarePyramid_def
  gyroelongatedSquarePyramid_def squareOrthobicupola_def squarePrism_def

lemma bicupolaGraph_eval:
  "graph gyroelongBicupolaPair =
     [leftTwistEntry, rightTwistEntry]"
  by (simp add: gyroelongBicupolaPair_def makeBicupolaPrismOp_def makeBicupolaPrismOpGraph_def
      catalog_defs canGyroelongSecondaryC_def isBiC_def isGyroC_def twists_def rightTwistEntry_def
      leftTwistEntry_def)

lemma elongateCatalogGraph_eval:
  "elongateGraph isDigonalC isPrismaticC capstoneCatalog = [elongateSquareEntry]"
  by (simp add: elongateGraph_def makePrismOpGraph_def catalog_defs isDigonalC_def
      isPrismaticC_def elongateSquareEntry_def)

lemma elongateGraph_eval: "graph elongatePair = [elongateSquareEntry]"
  by (simp add: elongatePair_def makePrismOp_def elongateCatalogGraph_eval)

lemma gyroelongPyramidGraph_eval:
  "graph gyroelongPyramidPair =
     [\<lparr>left = squarePyramid, right = gyroelongatedSquarePyramid, options = None\<rparr>]"
  by (simp add: gyroelongPyramidPair_def makePrismOp_def gyroelongPyramidGraph_def
      makePrismOpGraph_def catalog_defs canGyroelongPrimaryC_def isPrismaticC_def)

lemma gyroelongCupolaGraph_eval: "graph gyroelongCupolaPair = []"
  by (simp add: gyroelongCupolaPair_def makePrismOp_def gyroelongCupolaGraph_def
      makePrismOpGraph_def catalog_defs canGyroelongSecondaryC_def isMonoC_def isPrismaticC_def)

lemma turnPrismaticCatalogGraph_eval:
  "turnPrismaticGraph isPrismC isDigonalC capstoneCatalog = [turnSquarePrismEntry]"
  by (simp add: turnPrismaticGraph_def catalog_defs isPrismC_def isDigonalC_def
      turnSquarePrismEntry_def)

lemma rightTwistEntry_sel:
  "left rightTwistEntry = squareOrthobicupola"
  "right rightTwistEntry = squareOrthobicupola\<lparr>elongation := Some Antiprism, twist := Some TwistLeft\<rparr>"
  "sideOptions rightTwistEntry Left = twistOpts TwistRight"
  "sideOptions rightTwistEntry Right = twistOpts TwistLeft"
  by (simp_all add: rightTwistEntry_def sideOptions_def orEmpty_def)


lemma elongateSquareEntry_sel:
  "left elongateSquareEntry = squarePyramid"
  "right elongateSquareEntry = elongatedSquarePyramid"
  "options elongateSquareEntry = None"
  "sideOptions elongateSquareEntry sd = fmempty"
  by (simp_all add: elongateSquareEntry_def sideOptions_def orEmpty_def)

lemma turnSquarePrismEntry_sel:
  "left turnSquarePrismEntry = squarePrism"
  "right turnSquarePrismEntry = squarePrism\<lparr>elongation := Some Antiprism\<rparr>"
  "sideOptions turnSquarePrismEntry sd = fmempty"
  by (simp_all add: turnSquarePrismEntry_def sideOptions_def orEmpty_def)

lemma tag_simps:
  "equivalent tagCollaborators a b = sameUpToTwist a b"
  "createForme tagCollaborators s g = Inr \<lparr>formeSpecs = s, formeGeom = g\<rparr>"
  "getGeometry tagCollaborators s = Inr s"
  by (simp_all add: tagCollaborators_def)


lemma pickBy_empty: "pickBy fmempty = fmempty"
  by (simp add: pickBy_def)

lemma shortenGraphs:
  "opGraph shortenElongated
     = [\<lparr>start = elongatedSquarePyramid, end' = squarePyramid, directedOptions = None\<rparr>]"
  "opGraph shortenGyroelongatedPyramid
     = [\<lparr>start = gyroelongatedSquarePyramid, end' = squarePyramid, directedOptions = None\<rparr>]"
  "opGraph shortenGyroelongatedCupola = []"
  "opGraph shortenGyroelongatedBicupola
     = [\<lparr>start = squareOrthobicupola\<lparr>elongation := Some Antiprism, twist := Some TwistRight\<rparr>,
         end' = squareOrthobicupola, directedOptions = Some (twistOpts TwistRight)\<rparr>,
        \<lparr>start = squareOrthobicupola\<lparr>elongation := Some Antiprism, twist := Some TwistLeft\<rparr>,
         end' = squareOrthobicupola, directedOptions = Some (twistOpts TwistLeft)\<rparr>]"
  by (simp_all add: shortenElongated_def shortenGyroelongatedPyramid_def
      shortenGyroelongatedCupola_def shortenGyroelongatedBicupola_def makeOperation_def
      toDirected_def elongateGraph_eval gyroelongPyramidGraph_eval gyroelongCupolaGraph_eval
      bicupolaGraph_eval elongateSquareEntry_def leftTwistEntry_def rightTwistEntry_def)

lemma shorten_toGraphOpts:
  "toGraphOpts shortenElongated forme opts = opts"
  "toGraphOpts shortenGyroelongatedPyramid forme opts = opts"
  "toGraphOpts shortenGyroelongatedCupola forme opts = opts"
  "toGraphOpts shortenGyroelongatedBicupola forme opts = opts"
  by (simp_all add: shortenElongated_def shortenGyroelongatedPyramid_def
      shortenGyroelongatedCupola_def shortenGyroelongatedBicupola_def makeOperation_def)

lemma formeFails_tag: "\<not> formeFails tagCollaborators solid entry"
  by (simp add: formeFails_def tag_simps)

lemma capstones_differ:
  "\<not> sameUpToTwist elongatedSquarePyramid gyroelongatedSquarePyramid"
  "\<not> sameUpToTwist elongatedSquarePyramid squarePyramid"
  "\<not> sameUpToTwist gyroelongatedSquarePyramid squarePyramid"
  "\<not> sameUpToTwist (squareOrthobicupola\<lparr>elongation := Some Antiprism, twist := tw\<rparr>) squarePyramid"
  "sameUpToTwist s s"
  by (simp_all add: sameUpToTwist_def elongatedSquarePyramid_def gyroelongatedSquarePyramid_def
      squarePyramid_def squareOrthobicupola_def)

subsection \<open>The loops of doWithRightForme\<close>

lemma findRightForme_find:
  "findRightForme C op solid opts es =
     (case List.find (\<lambda>entry. entryApplies C op solid opts entry \<or> formeFails C solid entry) es of
        None \<Rightarrow> Inr None
      | Some entry \<Rightarrow>
          andThen (createForme C (start entry) (formeGeom solid))
            (\<lambda>forme. Inr (Some (forme, toGraphOpts op forme opts))))"
proof (induction es)
  case Nil
  show ?case by simp
next
  case (Cons e es)
  show ?case
  proof (cases "equivalent C (start e) (formeSpecs solid)")
    case False
    with Cons.IH show ?thesis by (simp add: entryApplies_def formeFails_def)
  next
    case True
    show ?thesis
    proof (cases "createForme C (start e) (formeGeom solid)")
      case (Inl err)
      with True show ?thesis by (simp add: entryApplies_def formeFails_def andThen_def)
    next
      case (Inr forme)
      with True Cons.IH show ?thesis
        by (simp add: entryApplies_def formeFails_def andThen_def Let_def)
    qed
  qed
qed

lemma firstEntry_Nil: "firstEntry entriesOf p [] = None"
  by (simp add: firstEntry_def)

lemma firstEntry_Cons:
  "firstEntry entriesOf p (op # ops) =
     (case List.find (p op) (entriesOf op) of
        Some entry \<Rightarrow> Some (op, entry)
      | None \<Rightarrow> firstEntry entriesOf p ops)"
proof (cases "List.find (p op) (entriesOf op)")
  case None
  then have "\<not> list_ex (p op) (entriesOf op)"
    by (simp add: find_None_ball list_ex_iff)
  with None show ?thesis by (simp add: firstEntry_def)
next
  case (Some entry)
  then have "entry \<in> set (entriesOf op) \<and> p op entry" by (rule find_Some_holds)
  then have "list_ex (p op) (entriesOf op)" by (auto simp: list_ex_iff)
  with Some show ?thesis by (simp add: firstEntry_def)
qed

lemma firstEntry_None_iff:
  "firstEntry entriesOf p ops = None \<longleftrightarrow> \<not> (\<exists>op \<in> set ops. \<exists>entry \<in> set (entriesOf op). p op entry)"
proof (induction ops)
  case Nil
  show ?case by (simp add: firstEntry_Nil)
next
  case (Cons a ops)
  show ?case
  proof (cases "List.find (p a) (entriesOf a)")
    case None
    then have "\<forall>e \<in> set (entriesOf a). \<not> p a e" by (simp add: find_None_ball)
    with None Cons.IH show ?thesis by (simp add: firstEntry_Cons)
  next
    case (Some e)
    then have "e \<in> set (entriesOf a) \<and> p a e" by (rule find_Some_holds)
    with Some show ?thesis by (auto simp: firstEntry_Cons)
  qed
qed

lemma firstEntry_Some_holds:
  "firstEntry entriesOf p ops = Some (op, entry) \<Longrightarrow> op \<in> set ops \<and> entry \<in> set (entriesOf op) \<and> p op entry"
proof (induction ops)
  case Nil
  then show ?case by (simp add: firstEntry_Nil)
next
  case (Cons a ops)
  show ?case
  proof (cases "List.find (p a) (entriesOf a)")
    case None
    with Cons show ?thesis by (simp add: firstEntry_Cons)
  next
    case (Some e)
    then have "e \<in> set (entriesOf a) \<and> p a e" by (rule find_Some_holds)
    with Some Cons.prems show ?thesis by (simp add: firstEntry_Cons)
  qed
qed

lemma firstEntry_stronger:
  "firstEntry entriesOf p ops = Some (op, entry) \<Longrightarrow> (\<And>x e. q x e \<Longrightarrow> p x e) \<Longrightarrow> q op entry
     \<Longrightarrow> firstEntry entriesOf q ops = Some (op, entry)"
proof (induction ops)
  case Nil
  then show ?case by (simp add: firstEntry_Nil)
next
  case (Cons a ops)
  show ?case
  proof (cases "List.find (p a) (entriesOf a)")
    case None
    then have "\<forall>e \<in> set (entriesOf a). \<not> q a e"
      using Cons.prems(2) by (auto simp: find_None_ball)
    then have nq: "List.find (q a) (entriesOf a) = None" by (simp add: find_None_ball)
    from None Cons.prems(1) have "firstEntry entriesOf p ops = Some (op, entry)"
      by (simp add: firstEntry_Cons)
    then have "firstEntry entriesOf q ops = Some (op, entry)"
      using Cons.prems(2) Cons.prems(3) by (rule Cons.IH)
    with nq show ?thesis by (simp add: firstEntry_Cons)
  next
    case (Some e)
    with Cons.prems(1) have eq: "a = op" "e = entry" by (simp_all add: firstEntry_Cons)
    from Some eq have fp: "List.find (p op) (entriesOf op) = Some entry" by simp
    have "List.find (q op) (entriesOf op) = Some entry"
      using fp
    proof (rule find_Some_stronger)
      fix y assume "y \<in> set (entriesOf op)" and "q op y"
      then show "p op y" using Cons.prems(2) by blast
    next
      show "q op entry" by (rule Cons.prems(3))
    qed
    with eq show ?thesis by (simp add: firstEntry_Cons)
  qed
qed

lemma firstEntry_cong:
  "(\<And>x e. x \<in> set ops \<Longrightarrow> e \<in> set (entriesOf x) \<Longrightarrow> p x e = q x e)
     \<Longrightarrow> firstEntry entriesOf p ops = firstEntry entriesOf q ops"
proof (induction ops)
  case Nil
  show ?case by (simp add: firstEntry_Nil)
next
  case (Cons a ops)
  have f: "List.find (p a) (entriesOf a) = List.find (q a) (entriesOf a)"
  proof (rule find_cong_set)
    fix y assume "y \<in> set (entriesOf a)"
    then show "p a y = q a y" using Cons.prems [of a y] by simp
  qed
  have r: "firstEntry entriesOf p ops = firstEntry entriesOf q ops"
  proof (rule Cons.IH)
    fix x e assume "x \<in> set ops" and "e \<in> set (entriesOf x)"
    then show "p x e = q x e" using Cons.prems [of x e] by simp
  qed
  show ?case unfolding firstEntry_Cons f r ..
qed

lemma doWithRightForme_first:
  "doWithRightForme C ops solid opts callback =
     dispatchAt C solid opts callback (firstDeciding C ops solid opts)"
proof (induction ops)
  case Nil
  show ?case by (simp add: firstDeciding_def firstEntry_Nil dispatchAt_def)
next
  case (Cons op ops)
  show ?case
  proof (cases "List.find (\<lambda>entry. entryApplies C op solid opts entry \<or> formeFails C solid entry)
                  (opGraph op)")
    case None
    with Cons.IH show ?thesis
      by (simp add: findRightForme_find firstDeciding_def firstEntry_Cons)
  next
    case (Some entry)
    then show ?thesis
      by (cases "createForme C (start entry) (formeGeom solid)")
         (simp_all add: findRightForme_find firstDeciding_def firstEntry_Cons dispatchAt_def
            andThen_def)
  qed
qed

lemma dispatchAt_applicable:
  assumes "firstApplicable C ops solid opts = Some (op, entry)"
  shows "\<exists>forme. createForme C (start entry) (formeGeom solid) = Inr forme
           \<and> dispatchAt C solid opts callback (Some (op, entry))
               = Inr (callback op forme (toGraphOpts op forme opts))"
proof -
  from assms have "entryApplies C op solid opts entry"
    using firstEntry_Some_holds [of opGraph "\<lambda>op. entryApplies C op solid opts" ops op entry]
    by (simp add: firstApplicable_def)
  then have "\<exists>forme. createForme C (start entry) (formeGeom solid) = Inr forme"
    by (cases "createForme C (start entry) (formeGeom solid)") (simp_all add: entryApplies_def)
  then obtain forme where "createForme C (start entry) (formeGeom solid) = Inr forme" ..
  then show ?thesis by (simp add: dispatchAt_def andThen_def)
qed

lemma dispatch_returns:
  assumes "doWithRightForme C ops solid opts callback = Inr r"
  shows "\<exists>op entry forme. firstApplicable C ops solid opts = Some (op, entry)
           \<and> createForme C (start entry) (formeGeom solid) = Inr forme
           \<and> r = callback op forme (toGraphOpts op forme opts)"
proof -
  from assms have d: "dispatchAt C solid opts callback (firstDeciding C ops solid opts) = Inr r"
    by (simp add: doWithRightForme_first)
  have "\<exists>oe. firstDeciding C ops solid opts = Some oe"
    using d by (cases "firstDeciding C ops solid opts") (simp_all add: dispatchAt_def)
  then obtain oe where "firstDeciding C ops solid opts = Some oe" ..
  moreover obtain op entry where "oe = (op, entry)" by (cases oe)
  ultimately have fd: "firstDeciding C ops solid opts = Some (op, entry)" by simp
  have "\<exists>forme. createForme C (start entry) (formeGeom solid) = Inr forme
           \<and> r = callback op forme (toGraphOpts op forme opts)"
    using d fd
    by (cases "createForme C (start entry) (formeGeom solid)")
       (simp_all add: dispatchAt_def andThen_def)
  then obtain forme where cf: "createForme C (start entry) (formeGeom solid) = Inr forme"
    and r: "r = callback op forme (toGraphOpts op forme opts)" by blast
  let ?p = "\<lambda>op entry. entryApplies C op solid opts entry \<or> formeFails C solid entry"
  from fd have fe: "firstEntry opGraph ?p ops = Some (op, entry)"
    by (simp add: firstDeciding_def)
  then have "?p op entry"
    using firstEntry_Some_holds [of opGraph ?p ops op entry] by simp
  with cf have ap: "entryApplies C op solid opts entry" by (simp add: formeFails_def)
  have "firstEntry opGraph (\<lambda>op. entryApplies C op solid opts) ops = Some (op, entry)"
    using fe
  proof (rule firstEntry_stronger)
    fix x e assume "entryApplies C x solid opts e"
    then show "entryApplies C x solid opts e \<or> formeFails C solid e" ..
  next
    show "entryApplies C op solid opts entry" by (rule ap)
  qed
  then have "firstApplicable C ops solid opts = Some (op, entry)"
    by (simp add: firstApplicable_def)
  with cf r show ?thesis by blast
qed

lemma dispatch_none:
  assumes "\<not> (\<exists>op \<in> set ops. \<exists>entry \<in> set (opGraph op). entryApplies C op solid opts entry)"
  shows "\<exists>err. doWithRightForme C ops solid opts callback = Inl err"
proof (cases "doWithRightForme C ops solid opts callback")
  case (Inl err)
  then show ?thesis by blast
next
  case (Inr r)
  then have "\<exists>op entry forme. firstApplicable C ops solid opts = Some (op, entry)
           \<and> createForme C (start entry) (formeGeom solid) = Inr forme
           \<and> r = callback op forme (toGraphOpts op forme opts)"
    by (rule dispatch_returns)
  then obtain op entry where "firstApplicable C ops solid opts = Some (op, entry)"
    by blast
  then have "op \<in> set ops \<and> entry \<in> set (opGraph op) \<and> entryApplies C op solid opts entry"
    using firstEntry_Some_holds [of opGraph "\<lambda>op. entryApplies C op solid opts" ops op entry]
    by (simp add: firstApplicable_def)
  with assms show ?thesis by blast
qed

lemma deciding_applicable:
  assumes "\<forall>op \<in> set ops. \<forall>entry \<in> set (opGraph op). \<not> formeFails C solid entry"
  shows "firstDeciding C ops solid opts = firstApplicable C ops solid opts"
  unfolding firstDeciding_def firstApplicable_def
proof (rule firstEntry_cong)
  fix x e assume "x \<in> set ops" and "e \<in> set (opGraph x)"
  with assms have "\<not> formeFails C solid e" by blast
  then show "(entryApplies C x solid opts e \<or> formeFails C solid e) = entryApplies C x solid opts e"
    by simp
qed

lemma dispatch_throws_iff:
  assumes "\<forall>op \<in> set ops. \<forall>entry \<in> set (opGraph op). \<not> formeFails C solid entry"
  shows "(\<exists>err. doWithRightForme C ops solid opts callback = Inl err)
           \<longleftrightarrow> \<not> (\<exists>op \<in> set ops. \<exists>entry \<in> set (opGraph op). entryApplies C op solid opts entry)"
proof
  assume "\<exists>err. doWithRightForme C ops solid opts callback = Inl err"
  then have "\<exists>err. dispatchAt C solid opts callback (firstApplicable C ops solid opts) = Inl err"
    by (simp add: doWithRightForme_first deciding_applicable [OF assms])
  then obtain err where e: "dispatchAt C solid opts callback (firstApplicable C ops solid opts) = Inl err" ..
  have "firstApplicable C ops solid opts = None"
  proof (cases "firstApplicable C ops solid opts")
    case None
    then show ?thesis .
  next
    case (Some oe)
    obtain op entry where oe: "oe = (op, entry)" by (cases oe)
    with Some have "firstApplicable C ops solid opts = Some (op, entry)" by simp
    from dispatchAt_applicable [OF this, of callback] this e show ?thesis by auto
  qed
  then show "\<not> (\<exists>op \<in> set ops. \<exists>entry \<in> set (opGraph op). entryApplies C op solid opts entry)"
    by (simp add: firstApplicable_def firstEntry_None_iff)
next
  assume "\<not> (\<exists>op \<in> set ops. \<exists>entry \<in> set (opGraph op). entryApplies C op solid opts entry)"
  then show "\<exists>err. doWithRightForme C ops solid opts callback = Inl err"
    by (rule dispatch_none)
qed

subsection \<open>The graph entry as the gate of an operation\<close>




subsection \<open>Round trips through an operation pair\<close>

text \<open>
  C3, as the code has it. The Specs that an operation leads to from a Specs and options
  is that of \<open>getOpposite\<close>, the opposite side of the first matching entry. For every
  entry of a graph built by \<open>makePrismOp\<close> (the graphs of \<open>elongate\<close>,
  \<open>gyroelongPyramid\<close>, \<open>turnPyramid\<close>, \<open>gyroelongCupola\<close> and \<open>turnCupola\<close>), over any
  catalog and any predicates, the left-to-right direction from the left Specs with the
  entry's left options gives the right Specs, and the right-to-left direction from that
  Specs with the entry's right options gives the left Specs back. For every entry of a
  graph built by \<open>makeBicupolaPrismOp\<close> the left-to-right direction gives the right Specs
  and the right-to-left direction gives a Specs that differs from the left Specs in the
  twist at most. The same exact round trip holds in the graph of \<open>turnPrismatic\<close> when
  the Specs that \<open>isPrism\<close> accepts have the elongation prism. Every left Specs of the
  graph of \<open>elongate\<close> has no elongation, so on a Specs with an elongation \<open>elongate\<close>
  finds no entry and throws.
\<close>

theorem round_trip_prismOps:
  "(entry \<in> set (makePrismOpGraph query isPrismatic re le catalog)
     \<longrightarrow> getOpposite (makePrismOpGraph query isPrismatic re le catalog) Left (left entry)
           (Some (sideOptions entry Left)) = Inr (right entry)
       \<and> getOpposite (makePrismOpGraph query isPrismatic re le catalog) Right (right entry)
           (Some (sideOptions entry Right)) = Inr (left entry))
 \<and> (entryB \<in> set (makeBicupolaPrismOpGraph canGyroelong isBi isGyro le catalog)
     \<longrightarrow> getOpposite (makeBicupolaPrismOpGraph canGyroelong isBi isGyro le catalog) Left
           (left entryB) (Some (sideOptions entryB Left)) = Inr (right entryB)
       \<and> (\<exists>sp. getOpposite (makeBicupolaPrismOpGraph canGyroelong isBi isGyro le catalog) Right
                 (right entryB) (Some (sideOptions entryB Right)) = Inr sp
               \<and> sameUpToTwist sp (left entryB)))
 \<and> (entryT \<in> set (turnPrismaticGraph isPrism isDigonal catalog)
       \<and> (\<forall>s. isPrism s \<longrightarrow> elongation s = Some Prism)
     \<longrightarrow> getOpposite (turnPrismaticGraph isPrism isDigonal catalog) Left (left entryT)
           (Some (sideOptions entryT Left)) = Inr (right entryT)
       \<and> getOpposite (turnPrismaticGraph isPrism isDigonal catalog) Right (right entryT)
           (Some (sideOptions entryT Right)) = Inr (left entryT))
 \<and> (elongation sp \<noteq> None
     \<longrightarrow> getOpposite (elongateGraph isDigonal isPrismatic catalog) Left sp opts
           = Inl (CouldNotFindEntry Left))"
  using makePrismOp_round_trip [of entry query isPrismatic re le catalog]
    bicupola_round_trip [of entryB canGyroelong isBi isGyro le catalog]
    turnPrismatic_round_trip [of entryT isPrism isDigonal catalog]
    elongate_not_applicable [of sp isDigonal isPrismatic catalog opts]
  by blast

theorem round_trip_prismOps_witness:
  "elongateSquareEntry \<in> set (makePrismOpGraph (\<lambda>s. \<not> isDigonalC s) isPrismaticC Prism None capstoneCatalog)
   \<and> getOpposite (elongateGraph isDigonalC isPrismaticC capstoneCatalog) Left squarePyramid
        (Some fmempty) = Inr elongatedSquarePyramid
   \<and> getOpposite (elongateGraph isDigonalC isPrismaticC capstoneCatalog) Right
        elongatedSquarePyramid (Some fmempty) = Inr squarePyramid
   \<and> rightTwistEntry \<in> set (graph gyroelongBicupolaPair)
   \<and> getOpposite (graph gyroelongBicupolaPair) Left squareOrthobicupola (Some (twistOpts TwistRight))
       = Inr (squareOrthobicupola\<lparr>elongation := Some Antiprism, twist := Some TwistLeft\<rparr>)
   \<and> (\<exists>sp. getOpposite (graph gyroelongBicupolaPair) Right
              (squareOrthobicupola\<lparr>elongation := Some Antiprism, twist := Some TwistLeft\<rparr>)
              (Some (twistOpts TwistLeft)) = Inr sp
            \<and> sameUpToTwist sp squareOrthobicupola)
   \<and> turnSquarePrismEntry \<in> set (turnPrismaticGraph isPrismC isDigonalC capstoneCatalog)
   \<and> getOpposite (turnPrismaticGraph isPrismC isDigonalC capstoneCatalog) Left squarePrism
        (Some fmempty) = Inr (squarePrism\<lparr>elongation := Some Antiprism\<rparr>)
   \<and> getOpposite (turnPrismaticGraph isPrismC isDigonalC capstoneCatalog) Right
        (squarePrism\<lparr>elongation := Some Antiprism\<rparr>) (Some fmempty) = Inr squarePrism
   \<and> elongation gyroelongatedSquarePyramid = Some Antiprism
   \<and> getOpposite (elongateGraph isDigonalC isPrismaticC capstoneCatalog) Left
        gyroelongatedSquarePyramid None = Inl (CouldNotFindEntry Left)"
proof -
  let ?eg = "elongateGraph isDigonalC isPrismaticC capstoneCatalog"
  let ?bg = "makeBicupolaPrismOpGraph canGyroelongSecondaryC isBiC isGyroC None capstoneCatalog"
  let ?tg = "turnPrismaticGraph isPrismC isDigonalC capstoneCatalog"
  note T = round_trip_prismOps [of elongateSquareEntry "\<lambda>s. \<not> isDigonalC s" isPrismaticC Prism None
      capstoneCatalog rightTwistEntry canGyroelongSecondaryC isBiC isGyroC
      turnSquarePrismEntry isPrismC isDigonalC gyroelongatedSquarePyramid None]
  have eg: "makePrismOpGraph (\<lambda>s. \<not> isDigonalC s) isPrismaticC Prism None capstoneCatalog = ?eg"
    by (simp add: elongateGraph_def)
  have bg: "graph gyroelongBicupolaPair = ?bg"
    by (simp add: gyroelongBicupolaPair_def makeBicupolaPrismOp_def)
  have h1: "elongateSquareEntry \<in> set ?eg" by (simp add: elongateCatalogGraph_eval)
  have h2: "rightTwistEntry \<in> set ?bg" using bicupolaGraph_eval by (simp add: bg)
  have h3: "turnSquarePrismEntry \<in> set ?tg" by (simp add: turnPrismaticCatalogGraph_eval)
  have h4: "\<forall>s. isPrismC s \<longrightarrow> elongation s = Some Prism" by (simp add: isPrismC_def)
  have h5: "elongation gyroelongatedSquarePyramid = Some Antiprism"
    by (simp add: gyroelongatedSquarePyramid_def)
  then have h5': "elongation gyroelongatedSquarePyramid \<noteq> None" by simp
  from T h1 have r1:
    "getOpposite ?eg Left (left elongateSquareEntry) (Some (sideOptions elongateSquareEntry Left))
       = Inr (right elongateSquareEntry)
     \<and> getOpposite ?eg Right (right elongateSquareEntry) (Some (sideOptions elongateSquareEntry Right))
       = Inr (left elongateSquareEntry)"
    unfolding eg by blast
  from T h2 have r2:
    "getOpposite ?bg Left (left rightTwistEntry) (Some (sideOptions rightTwistEntry Left))
       = Inr (right rightTwistEntry)
     \<and> (\<exists>sp. getOpposite ?bg Right (right rightTwistEntry) (Some (sideOptions rightTwistEntry Right))
               = Inr sp \<and> sameUpToTwist sp (left rightTwistEntry))"
    by blast
  from T h3 h4 have r3:
    "getOpposite ?tg Left (left turnSquarePrismEntry) (Some (sideOptions turnSquarePrismEntry Left))
       = Inr (right turnSquarePrismEntry)
     \<and> getOpposite ?tg Right (right turnSquarePrismEntry)
         (Some (sideOptions turnSquarePrismEntry Right)) = Inr (left turnSquarePrismEntry)"
    by blast
  from T h5' have r4: "getOpposite ?eg Left gyroelongatedSquarePyramid None
                         = Inl (CouldNotFindEntry Left)"
    by blast
  from r1 r2 r3 r4 h1 h2 h3 h5 show ?thesis
    unfolding elongateSquareEntry_sel rightTwistEntry_sel turnSquarePrismEntry_sel eg bg
    by blast
qed

text \<open>
  The gyroelongated square pyramid has the elongation antiprism: the graph of
  \<open>elongate\<close> has no left entry for it, and \<open>elongate\<close> throws on it instead of leading
  to a Specs that \<open>shorten\<close> could take back.
\<close>

theorem round_trip_counterexample:
  "elongation gyroelongatedSquarePyramid = Some Antiprism
   \<and> getOpposite (graph elongatePair) Left gyroelongatedSquarePyramid None
       = Inl (CouldNotFindEntry Left)
   \<and> opApply (makeOperation tagCollaborators Left elongatePair)
        (solidOf gyroelongatedSquarePyramid) fmempty
       = Inl (CouldNotFindEntry Left)"
  by (simp add: elongateGraph_eval getOpposite_def getEntry_def findEntry_def matchesEntry_def
      andThen_def makeOperation_def applyPair_def solidOf_def elongateSquareEntry_sel
      squarePyramid_def gyroelongatedSquarePyramid_def)

subsection \<open>Dispatch of combined operations\<close>

text \<open>
  C4. \<open>apply\<close> and \<open>toGraphOpts\<close> of \<open>combineOps(opArgs)\<close> go to the first
  sub-operation, in list order, whose graph has an entry with a start Specs equivalent to
  the solid's and options that match the derived graph options, with the forme built on
  the start Specs of the first such entry; if no sub-operation has such an entry, they
  throw. In full: both run the callback at the first entry, in the order of the loops,
  that matches or on whose start Specs \<open>createForme\<close> throws, and throw the error of
  \<open>createForme\<close> in the second case. When \<open>createForme\<close> throws on the start Specs of no
  equivalent entry, that entry is the first matching one, both return the result of the
  first sub-operation that has one, and they throw if and only if there is none.
  Whatever \<open>createForme\<close> does, they throw when no entry matches, and a result they
  return is that of the first matching entry's sub-operation on the forme of that
  entry's start Specs.
\<close>

theorem combineOps_dispatch:
  "combinedApply C ops solid opts
     = dispatchAt C solid opts (\<lambda>op forme graphOpts. opApply op forme opts)
         (firstDeciding C ops solid opts)
 \<and> combinedToGraphOpts C ops solid opts
     = dispatchAt C solid opts (\<lambda>op forme graphOpts. graphOpts) (firstDeciding C ops solid opts)
 \<and> ((\<forall>op \<in> set ops. \<forall>entry \<in> set (opGraph op). \<not> formeFails C solid entry)
     \<longrightarrow> firstDeciding C ops solid opts = firstApplicable C ops solid opts
       \<and> ((\<exists>err. combinedApply C ops solid opts = Inl err)
            \<longleftrightarrow> \<not> (\<exists>op \<in> set ops. \<exists>entry \<in> set (opGraph op). entryApplies C op solid opts entry))
       \<and> ((\<exists>err. combinedToGraphOpts C ops solid opts = Inl err)
            \<longleftrightarrow> \<not> (\<exists>op \<in> set ops. \<exists>entry \<in> set (opGraph op). entryApplies C op solid opts entry))
       \<and> (\<forall>op entry. firstApplicable C ops solid opts = Some (op, entry)
            \<longrightarrow> (\<exists>forme. createForme C (start entry) (formeGeom solid) = Inr forme
                  \<and> combinedApply C ops solid opts = Inr (opApply op forme opts)
                  \<and> combinedToGraphOpts C ops solid opts = Inr (toGraphOpts op forme opts))))
 \<and> (\<not> (\<exists>op \<in> set ops. \<exists>entry \<in> set (opGraph op). entryApplies C op solid opts entry)
     \<longrightarrow> (\<exists>err. combinedApply C ops solid opts = Inl err)
       \<and> (\<exists>err. combinedToGraphOpts C ops solid opts = Inl err))
 \<and> (\<forall>r. combinedApply C ops solid opts = Inr r
     \<longrightarrow> (\<exists>op entry forme. firstApplicable C ops solid opts = Some (op, entry)
           \<and> createForme C (start entry) (formeGeom solid) = Inr forme
           \<and> r = opApply op forme opts))
 \<and> (\<forall>r. combinedToGraphOpts C ops solid opts = Inr r
     \<longrightarrow> (\<exists>op entry forme. firstApplicable C ops solid opts = Some (op, entry)
           \<and> createForme C (start entry) (formeGeom solid) = Inr forme
           \<and> r = toGraphOpts op forme opts))"
proof (intro conjI impI allI)
  show "combinedApply C ops solid opts
     = dispatchAt C solid opts (\<lambda>op forme graphOpts. opApply op forme opts)
         (firstDeciding C ops solid opts)"
    by (simp add: combinedApply_def doWithRightForme_first)
  show "combinedToGraphOpts C ops solid opts
     = dispatchAt C solid opts (\<lambda>op forme graphOpts. graphOpts) (firstDeciding C ops solid opts)"
    by (simp add: combinedToGraphOpts_def doWithRightForme_first)
next
  assume h: "\<forall>op \<in> set ops. \<forall>entry \<in> set (opGraph op). \<not> formeFails C solid entry"
  show "firstDeciding C ops solid opts = firstApplicable C ops solid opts"
    using h by (rule deciding_applicable)
  show "(\<exists>err. combinedApply C ops solid opts = Inl err)
            \<longleftrightarrow> \<not> (\<exists>op \<in> set ops. \<exists>entry \<in> set (opGraph op). entryApplies C op solid opts entry)"
    unfolding combinedApply_def using h by (rule dispatch_throws_iff)
  show "(\<exists>err. combinedToGraphOpts C ops solid opts = Inl err)
            \<longleftrightarrow> \<not> (\<exists>op \<in> set ops. \<exists>entry \<in> set (opGraph op). entryApplies C op solid opts entry)"
    unfolding combinedToGraphOpts_def using h by (rule dispatch_throws_iff)
  fix op entry assume fa: "firstApplicable C ops solid opts = Some (op, entry)"
  have fd: "firstDeciding C ops solid opts = Some (op, entry)"
    using h fa by (simp add: deciding_applicable)
  from fa have "entryApplies C op solid opts entry"
    using firstEntry_Some_holds [of opGraph "\<lambda>op. entryApplies C op solid opts" ops op entry]
    by (simp add: firstApplicable_def)
  then have "\<exists>forme. createForme C (start entry) (formeGeom solid) = Inr forme"
    by (cases "createForme C (start entry) (formeGeom solid)") (simp_all add: entryApplies_def)
  then obtain forme where cf: "createForme C (start entry) (formeGeom solid) = Inr forme" ..
  have "combinedApply C ops solid opts = Inr (opApply op forme opts)"
    using fd cf by (simp add: combinedApply_def doWithRightForme_first dispatchAt_def andThen_def)
  moreover have "combinedToGraphOpts C ops solid opts = Inr (toGraphOpts op forme opts)"
    using fd cf
    by (simp add: combinedToGraphOpts_def doWithRightForme_first dispatchAt_def andThen_def)
  ultimately show "\<exists>forme. createForme C (start entry) (formeGeom solid) = Inr forme
                  \<and> combinedApply C ops solid opts = Inr (opApply op forme opts)
                  \<and> combinedToGraphOpts C ops solid opts = Inr (toGraphOpts op forme opts)"
    using cf by blast
next
  assume n: "\<not> (\<exists>op \<in> set ops. \<exists>entry \<in> set (opGraph op). entryApplies C op solid opts entry)"
  show "\<exists>err. combinedApply C ops solid opts = Inl err"
    unfolding combinedApply_def using n by (rule dispatch_none)
  show "\<exists>err. combinedToGraphOpts C ops solid opts = Inl err"
    unfolding combinedToGraphOpts_def using n by (rule dispatch_none)
next
  fix r assume "combinedApply C ops solid opts = Inr r"
  then show "\<exists>op entry forme. firstApplicable C ops solid opts = Some (op, entry)
           \<and> createForme C (start entry) (formeGeom solid) = Inr forme
           \<and> r = opApply op forme opts"
    unfolding combinedApply_def by (rule dispatch_returns)
next
  fix r assume "combinedToGraphOpts C ops solid opts = Inr r"
  then show "\<exists>op entry forme. firstApplicable C ops solid opts = Some (op, entry)
           \<and> createForme C (start entry) (formeGeom solid) = Inr forme
           \<and> r = toGraphOpts op forme opts"
    unfolding combinedToGraphOpts_def by (rule dispatch_returns)
qed

theorem combineOps_dispatch_witness:
  "shortenGyroelongatedPyramid \<in> set shortenOps
   \<and> \<lparr>start = gyroelongatedSquarePyramid, end' = squarePyramid, directedOptions = None\<rparr>
        \<in> set (opGraph shortenGyroelongatedPyramid)
   \<and> entryApplies tagCollaborators shortenGyroelongatedPyramid
        (solidOf gyroelongatedSquarePyramid) fmempty
        \<lparr>start = gyroelongatedSquarePyramid, end' = squarePyramid, directedOptions = None\<rparr>
   \<and> firstApplicable tagCollaborators shortenOps (solidOf gyroelongatedSquarePyramid) fmempty
       = Some (shortenGyroelongatedPyramid,
           \<lparr>start = gyroelongatedSquarePyramid, end' = squarePyramid, directedOptions = None\<rparr>)
   \<and> combinedApply tagCollaborators shortenOps (solidOf gyroelongatedSquarePyramid) fmempty
       = Inr (opApply shortenGyroelongatedPyramid (solidOf gyroelongatedSquarePyramid) fmempty)
   \<and> combinedToGraphOpts tagCollaborators shortenOps (solidOf gyroelongatedSquarePyramid) fmempty
       = Inr fmempty
   \<and> combinedApply tagCollaborators shortenOps (solidOf squarePyramid) fmempty
       = Inl CouldNotFindMatchingGraphEntry
   \<and> (\<exists>err. combinedToGraphOpts tagCollaborators shortenOps (solidOf squarePyramid) fmempty
              = Inl err)"
proof -
  let ?C = tagCollaborators
  let ?solid = "solidOf gyroelongatedSquarePyramid"
  let ?other = "solidOf squarePyramid"
  let ?entry = "\<lparr>start = gyroelongatedSquarePyramid, end' = squarePyramid, directedOptions = None\<rparr>"
  note T1 = combineOps_dispatch [of ?C shortenOps ?solid fmempty]
  note T2 = combineOps_dispatch [of ?C shortenOps ?other fmempty]
  have h1: "shortenGyroelongatedPyramid \<in> set shortenOps" by (simp add: shortenOps_def)
  have h2: "?entry \<in> set (opGraph shortenGyroelongatedPyramid)" by (simp add: shortenGraphs)
  have h3: "entryApplies ?C shortenGyroelongatedPyramid ?solid fmempty ?entry"
    by (simp add: entryApplies_def orEmpty_def isMatch_empty pickBy_empty shorten_toGraphOpts
        tag_simps solidOf_def capstones_differ)
  have n0: "\<not> list_ex (entryApplies ?C shortenElongated ?solid fmempty) (opGraph shortenElongated)"
    by (simp add: shortenGraphs entryApplies_def tag_simps solidOf_def capstones_differ)
  have fa: "firstApplicable ?C shortenOps ?solid fmempty = Some (shortenGyroelongatedPyramid, ?entry)"
    using n0 h3 by (simp add: firstApplicable_def firstEntry_def shortenOps_def shortenGraphs)
  have nf: "\<forall>op \<in> set shortenOps. \<forall>entry \<in> set (opGraph op). \<not> formeFails ?C ?solid entry"
    by (simp add: formeFails_tag)
  have nf': "\<forall>op \<in> set shortenOps. \<forall>entry \<in> set (opGraph op). \<not> formeFails ?C ?other entry"
    by (simp add: formeFails_tag)
  have none: "\<not> (\<exists>op \<in> set shortenOps. \<exists>entry \<in> set (opGraph op).
                    entryApplies ?C op ?other fmempty entry)"
    by (simp add: shortenOps_def shortenGraphs entryApplies_def tag_simps solidOf_def
        capstones_differ)
  have cf: "createForme ?C (start ?entry) (formeGeom ?solid) = Inr ?solid"
    by (simp add: tag_simps solidOf_def)
  from T1 nf fa have "\<exists>forme. createForme ?C (start ?entry) (formeGeom ?solid) = Inr forme
                  \<and> combinedApply ?C shortenOps ?solid fmempty
                       = Inr (opApply shortenGyroelongatedPyramid forme fmempty)
                  \<and> combinedToGraphOpts ?C shortenOps ?solid fmempty
                       = Inr (toGraphOpts shortenGyroelongatedPyramid forme fmempty)"
    by blast
  then obtain forme where f: "createForme ?C (start ?entry) (formeGeom ?solid) = Inr forme"
    and r1: "combinedApply ?C shortenOps ?solid fmempty
               = Inr (opApply shortenGyroelongatedPyramid forme fmempty)"
    and r2: "combinedToGraphOpts ?C shortenOps ?solid fmempty
               = Inr (toGraphOpts shortenGyroelongatedPyramid forme fmempty)"
    by blast
  from f cf have fe: "forme = ?solid" by simp
  from r2 have r2': "combinedToGraphOpts ?C shortenOps ?solid fmempty = Inr fmempty"
    by (simp add: shorten_toGraphOpts)
  from T2 none have e1: "\<exists>err. combinedApply ?C shortenOps ?other fmempty = Inl err"
    and e2: "\<exists>err. combinedToGraphOpts ?C shortenOps ?other fmempty = Inl err"
    by blast+
  from T2 nf' have "firstDeciding ?C shortenOps ?other fmempty
                     = firstApplicable ?C shortenOps ?other fmempty" by blast
  moreover have "firstApplicable ?C shortenOps ?other fmempty = None"
    using none by (simp add: firstApplicable_def firstEntry_None_iff)
  moreover from T2 have "combinedApply ?C shortenOps ?other fmempty
     = dispatchAt ?C ?other fmempty (\<lambda>op forme graphOpts. opApply op forme fmempty)
         (firstDeciding ?C shortenOps ?other fmempty)" by blast
  ultimately have r3: "combinedApply ?C shortenOps ?other fmempty
                         = Inl CouldNotFindMatchingGraphEntry"
    by (simp add: dispatchAt_def)
  from h1 h2 h3 fa r1 r2' r3 e2 show ?thesis unfolding fe by blast
qed

section \<open>Properties of the rotation axis of doAugment\<close>

lemma sumsq_zero_iff: "(x * x + y * y + z * z = 0) = (x = 0 \<and> y = 0 \<and> (z::real) = 0)"
proof
  assume h: "x * x + y * y + z * z = 0"
  have "0 \<le> x * x" "0 \<le> y * y" "0 \<le> z * z" by simp_all
  with h have "x * x = 0" "y * y = 0" "z * z = 0" by linarith+
  then show "x = 0 \<and> y = 0 \<and> z = 0" by simp
qed simp

lemma magnitude_zero_iff: "(magnitude v = 0) = (v = (0, 0, 0))"
proof -
  obtain x y z where v: "v = (x, y, z)" by (cases v)
  show ?thesis unfolding v by (simp add: sumsq_zero_iff)
qed

lemma magnitude_nonneg: "0 \<le> magnitude v"
proof -
  obtain x y z where v: "v = (x, y, z)" by (cases v)
  show ?thesis unfolding v by simp
qed

lemma getNormalized_zero: "getNormalized (0, 0, 0) = (0, 0, 0)"
  by simp








end
